theory Spec2Isabelle
  imports Main "HOL-Library.Sublist" "HOL-Library.Multiset"
begin

section \<open>JavaScript values and errors\<close>

text \<open>
  A property that may be absent (\<open>undefined\<close>), \<open>null\<close> or hold a value. The reader
  tests \<open>!logRes.log\<close> and \<open>logRes.log === null\<close> separately, so the two empty values
  are kept apart. Fields that are only ever tested for truthiness or against \<open>null\<close> are
  plain options.
\<close>

datatype 'a js = Undefined | Null | Val 'a

datatype zk_op = GetData | Mkdirp | SetData

text \<open>
  Errors handed to a callback: arsenal's \<open>errors.InternalError\<close>, the coordinator's
  \<open>NO_NODE\<close>, any other coordinator failure, and the error object of an external
  collaborator (source client, record stream, bus producer), which is opaque.
\<close>

datatype error = InternalError | NoNode string | ZkFailure zk_op string | External string

text \<open>
  A phase that does not complete calls its callback with an error (\<open>Failed\<close>), or
  never calls it: because an exception is raised first (\<open>Thrown\<close>: reading a property
  of \<open>undefined\<close>, calling something that is not a function, an \<open>error\<close> event
  without a listener), or because the event it waits for never comes (\<open>Hung\<close>).
\<close>

datatype failure = Failed error | Thrown | Hung

text \<open>\<open>s.split(sep)[0]\<close> for a non-empty separator: the text before its first occurrence.\<close>

fun before_sep :: "string \<Rightarrow> string \<Rightarrow> string" where
  "before_sep sep [] = []"
| "before_sep sep (c # cs) = (if prefix sep (c # cs) then [] else c # before_sep sep cs)"

text \<open>\<open>s.split(sep)[1] !== undefined\<close> for a non-empty separator: it occurs in \<open>s\<close>.\<close>

fun has_sep :: "string \<Rightarrow> string \<Rightarrow> bool" where
  "has_sep sep [] = False"
| "has_sep sep (c # cs) = (if prefix sep (c # cs) then True else has_sep sep cs)"

section \<open>Log records, entries and extensions\<close>

record log_entry =
  e_type :: "string option"
  e_bucket :: "string option"
  e_key :: "string option"
  e_value :: "string option"
  e_db :: "string option"

record log_record =
  r_db :: "string option"
  r_entries :: "log_entry list"

text \<open>The object passed to \<open>ext.filter\<close>.\<close>

record filter_arg =
  f_type :: "string option"
  f_bucket :: "string option"
  f_key :: "string option"
  f_value :: "string option"

type_synonym kafka_entry = "string \<times> string"

text \<open>
  \<open>entriesToPublish\<close>: an object from topic to the entries staged for it, \<open>{}\<close> at
  the start of a batch. A topic it does not hold reads as \<open>undefined\<close>; topics named
  like a property every object inherits (\<open>constructor\<close>) are left aside.
\<close>

type_synonym handle = "string \<rightharpoonup> kafka_entry list"

text \<open>
  Modelled from the spec: the extension classes and \<open>LogReader._setEntryBatch\<close> /
  \<open>_unsetEntryBatch\<close> are not among the sources. The spec gives an extension a
  \<open>filter({type, bucket, key, value})\<close> that may stage events through the batch handle,
  which the reader hands over with \<open>setEntryBatch(handle)\<close> before iterating and takes
  back with \<open>unsetEntryBatch(handle)\<close> after. Each of the three is an arbitrary update
  of the handle.
\<close>

record extension =
  ext_setBatch :: "handle \<Rightarrow> handle"
  ext_filter :: "filter_arg \<Rightarrow> handle \<Rightarrow> handle"
  ext_unsetBatch :: "handle \<Rightarrow> handle"

definition setEntryBatch :: "extension list \<Rightarrow> handle \<Rightarrow> handle" where
  "setEntryBatch exts h = foldl (\<lambda>h' x. ext_setBatch x h') h exts"

definition unsetEntryBatch :: "extension list \<Rightarrow> handle \<Rightarrow> handle" where
  "unsetEntryBatch exts h = foldl (\<lambda>h' x. ext_unsetBatch x h') h exts"

text \<open>\<open>this._extensions.forEach(ext => ext.filter(arg))\<close>\<close>

definition filterAll :: "extension list \<Rightarrow> filter_arg \<Rightarrow> handle \<Rightarrow> handle" where
  "filterAll exts a h = foldl (\<lambda>h' x. ext_filter x a h') h exts"

section \<open>IngestionReader: configuration and progress store\<close>

text \<open>
  The fields the constructor and \<open>setup\<close> fix: the source bucket (\<open>this.bucket\<close>), the
  target bucket (\<open>this._targetZenkoBucket\<close>), the ingestion root on the coordinator, the
  raft id as it is printed into the log-offset path, and arsenal's version-id separator,
  a constant that is not among the sources.
\<close>

record reader_config =
  bucket :: string
  targetZenkoBucket :: string
  zookeeperPath :: string
  raftId :: string
  VID_SEP :: string

definition zkBasePath :: "reader_config \<Rightarrow> string" where
  "zkBasePath cfg = zookeeperPath cfg @ ''/'' @ targetZenkoBucket cfg"

definition bucketInitPath :: "reader_config \<Rightarrow> string" where
  "bucketInitPath cfg = zkBasePath cfg @ ''/init''"

definition pathToLogOffset :: "reader_config \<Rightarrow> string" where
  "pathToLogOffset cfg = zkBasePath cfg @ ''/logState/raft_'' @ raftId cfg @ ''/logOffset''"

definition initPath :: "reader_config \<Rightarrow> string \<Rightarrow> string" where
  "initPath cfg pathNode = bucketInitPath cfg @ ''/'' @ pathNode"

definition getInitIngestionNodes :: "string list" where
  "getInitIngestionNodes = [''isStatusComplete'', ''versionMarker'', ''keyMarker'']"

text \<open>
  The coordinator as the reader sees it. A node is absent (\<open>None\<close>), present without
  data (\<open>Some None\<close>, what \<open>mkdirp\<close> leaves) or present with data. \<open>failing\<close> says
  which requests the coordinator refuses for a reason other than a missing node.
  \<open>offsetNode\<close> is the integer the log-offset node holds and \<open>offsetWrites\<close> the
  history of the values written to it, oldest first.
\<close>

record coordinator =
  nodes :: "string \<rightharpoonup> string option"
  failing :: "zk_op \<Rightarrow> string \<Rightarrow> bool"
  offsetNode :: int
  offsetWrites :: "int list"

text \<open>The three requests of the client library the reader uses.\<close>

definition zk_getData :: "coordinator \<Rightarrow> string \<Rightarrow> error + string option" where
  "zk_getData zk p =
     (if failing zk GetData p then Inl (ZkFailure GetData p)
      else case nodes zk p of None \<Rightarrow> Inl (NoNode p) | Some d \<Rightarrow> Inr d)"

definition zk_mkdirp :: "coordinator \<Rightarrow> string \<Rightarrow> error option \<times> coordinator" where
  "zk_mkdirp zk p =
     (if failing zk Mkdirp p then (Some (ZkFailure Mkdirp p), zk)
      else case nodes zk p of
             None \<Rightarrow> (None, zk\<lparr>nodes := (nodes zk)(p \<mapsto> None)\<rparr>)
           | Some d \<Rightarrow> (None, zk))"

definition zk_setData :: "coordinator \<Rightarrow> string \<Rightarrow> string \<Rightarrow> error option \<times> coordinator" where
  "zk_setData zk p d =
     (if failing zk SetData p then (Some (ZkFailure SetData p), zk)
      else case nodes zk p of
             None \<Rightarrow> (Some (NoNode p), zk)
           | Some old \<Rightarrow> (None, zk\<lparr>nodes := (nodes zk)(p \<mapsto> Some d)\<rparr>))"

record init_state =
  isStatusComplete :: bool
  versionMarker :: "string option"
  keyMarker :: "string option"
  cseq :: "int option"

text \<open>
  What the \<open>getData\<close> callback of one init node does: an error other than \<open>NO_NODE\<close>
  is passed on, \<open>NO_NODE\<close> leads to \<open>mkdirp\<close>, and otherwise the node's data is the
  result (\<open>data && data.toString()\<close>).
\<close>

datatype init_read = ReadFailed error | Absent | Fetched "string option"

definition readNode :: "coordinator \<Rightarrow> string \<Rightarrow> init_read" where
  "readNode zk p =
     (case zk_getData zk p of
        Inl e \<Rightarrow> (case e of NoNode q \<Rightarrow> Absent | InternalError \<Rightarrow> ReadFailed e
                   | ZkFailure a q \<Rightarrow> ReadFailed e | External m \<Rightarrow> ReadFailed e)
      | Inr d \<Rightarrow> Fetched d)"

definition readErrors :: "init_read \<Rightarrow> error list" where
  "readErrors r = (case r of ReadFailed e \<Rightarrow> [e] | Absent \<Rightarrow> [] | Fetched d \<Rightarrow> [])"

text \<open>The value \<open>async.map\<close> collects for a node: \<open>cb()\<close> after \<open>mkdirp\<close> gives \<open>undefined\<close>.\<close>

definition nodeData :: "init_read \<Rightarrow> string option" where
  "nodeData r = (case r of ReadFailed e \<Rightarrow> None | Absent \<Rightarrow> None | Fetched d \<Rightarrow> d)"

text \<open>\<open>mkdirp\<close> of the nodes found absent; every request is issued, failures are collected.\<close>

fun precreate :: "coordinator \<Rightarrow> (string \<times> init_read) list \<Rightarrow> error list \<times> coordinator" where
  "precreate zk [] = ([], zk)"
| "precreate zk ((p, r) # rest) =
     (case r of
        Absent \<Rightarrow>
          (case zk_mkdirp zk p of
             (None, zk1) \<Rightarrow> precreate zk1 rest
           | (Some e, zk1) \<Rightarrow> (case precreate zk1 rest of (es, zk2) \<Rightarrow> (e # es, zk2)))
      | ReadFailed e \<Rightarrow> precreate zk rest
      | Fetched d \<Rightarrow> precreate zk rest)"

text \<open>
  \<open>_readInitState\<close>: the three reads are issued together, so their answers come before
  those of any \<open>mkdirp\<close>; the first error to arrive is the one reported.
\<close>

definition readInitState :: "reader_config \<Rightarrow> coordinator \<Rightarrow> (error + init_state) \<times> coordinator" where
  "readInitState cfg zk =
     (let p1 = initPath cfg ''isStatusComplete'';
          p2 = initPath cfg ''versionMarker'';
          p3 = initPath cfg ''keyMarker'';
          r1 = readNode zk p1;
          r2 = readNode zk p2;
          r3 = readNode zk p3
      in case precreate zk [(p1, r1), (p2, r2), (p3, r3)] of
           (mkErrs, zk1) \<Rightarrow>
             (case readErrors r1 @ readErrors r2 @ readErrors r3 @ mkErrs of
                e # es \<Rightarrow> (Inl e, zk1)
              | [] \<Rightarrow>
                  (Inr \<lparr>isStatusComplete = (nodeData r1 = Some ''true''),
                        versionMarker = nodeData r2,
                        keyMarker = nodeData r3,
                        cseq = None\<rparr>, zk1)))"

text \<open>\<open>(initState[pathNode] || 'null').toString()\<close>\<close>

definition initField :: "init_state \<Rightarrow> string \<Rightarrow> string" where
  "initField st pathNode =
     (if pathNode = ''isStatusComplete'' then (if isStatusComplete st then ''true'' else ''null'')
      else if pathNode = ''versionMarker'' then
        (case versionMarker st of None \<Rightarrow> ''null'' | Some v \<Rightarrow> if v = [] then ''null'' else v)
      else if pathNode = ''keyMarker'' then
        (case keyMarker st of None \<Rightarrow> ''null'' | Some v \<Rightarrow> if v = [] then ''null'' else v)
      else ''null'')"

fun writeNodes :: "reader_config \<Rightarrow> init_state \<Rightarrow> string list \<Rightarrow> coordinator \<Rightarrow> error list \<times> coordinator" where
  "writeNodes cfg st [] zk = ([], zk)"
| "writeNodes cfg st (n # ns) zk =
     (case zk_setData zk (initPath cfg n) (initField st n) of
        (None, zk1) \<Rightarrow> writeNodes cfg st ns zk1
      | (Some e, zk1) \<Rightarrow> (case writeNodes cfg st ns zk1 of (es, zk2) \<Rightarrow> (e # es, zk2)))"

text \<open>\<open>_writeInitState\<close>: nothing to do without an init state, else one write per node.\<close>

definition writeInitState :: "reader_config \<Rightarrow> init_state option \<Rightarrow> coordinator \<Rightarrow> error option \<times> coordinator" where
  "writeInitState cfg initSt zk =
     (case initSt of
        None \<Rightarrow> (None, zk)
      | Some st \<Rightarrow>
          (case writeNodes cfg st getInitIngestionNodes zk of
             ([], zk1) \<Rightarrow> (None, zk1)
           | (e # es, zk1) \<Rightarrow> (Some e, zk1)))"

section \<open>IngestionProducer: the snapshot\<close>

text \<open>
  Modelled from the spec: arsenal's \<open>constants.usersBucket\<close> and
  \<open>constants.metastoreBucket\<close> are not among the sources; the spec names the two
  well-known containers \<open>users..bucket\<close> and \<open>metastore\<close>.
\<close>

definition usersBucket :: string where
  "usersBucket = ''users..bucket''"

definition metastoreBucket :: string where
  "metastoreBucket = ''metastore''"

text \<open>
  The source cluster as the snapshot reads it: the keys \<open>getObjectList\<close> answers with
  for a bucket (or its error), and for an object the text \<open>JSON.stringify\<close> makes of what
  \<open>getObjectMetadata\<close> calls back with, whose error is only logged.
\<close>

record source_cluster =
  objectList :: "string \<Rightarrow> error + string list"
  objectMetadata :: "string \<Rightarrow> string \<Rightarrow> string option"

text \<open>The producer's own state: \<open>this.resLog\<close>, set to \<open>[]\<close> by the constructor.\<close>

record producer =
  resLog :: "log_entry list"

definition newProducer :: producer where
  "newProducer = \<lparr>resLog = []\<rparr>"

text \<open>\<open>RaftLogEntry.createPutEntry(objectMd, bucketPrefix)\<close>\<close>

definition createPutEntry :: "string option \<times> string \<times> string \<Rightarrow> string \<Rightarrow> log_entry" where
  "createPutEntry objectMd bucketPrefix =
     (case objectMd of
        (res, objectKey, bucketName) \<Rightarrow>
          \<lparr>e_type = Some ''put'', e_bucket = Some (bucketPrefix @ ''-'' @ bucketName),
           e_key = Some objectKey, e_value = res, e_db = None\<rparr>)"

text \<open>The iteratee of \<open>_getBucketObjects\<close>: nothing for the two containers, else the listing.\<close>

definition bucketObjects :: "source_cluster \<Rightarrow> string \<Rightarrow> error + (string \<times> string list) option" where
  "bucketObjects src bucketInfo =
     (if bucketInfo = usersBucket \<or> bucketInfo = metastoreBucket then Inr None
      else case objectList src bucketInfo of
             Inl e \<Rightarrow> Inl e
           | Inr ks \<Rightarrow> Inr (Some (bucketInfo, ks)))"

fun getBucketObjects :: "source_cluster \<Rightarrow> string list \<Rightarrow> error + (string \<times> string list) option list" where
  "getBucketObjects src [] = Inr []"
| "getBucketObjects src (b # bs) =
     (case bucketObjects src b of
        Inl e \<Rightarrow> Inl e
      | Inr x \<Rightarrow> (case getBucketObjects src bs of Inl e \<Rightarrow> Inl e | Inr xs \<Rightarrow> Inr (x # xs)))"

text \<open>\<open>_createAndPushEntry\<close>: one put entry per object, pushed onto \<open>this.resLog\<close>.\<close>

definition createAndPushEntry :: "string \<Rightarrow> (string option \<times> string \<times> string) list \<Rightarrow> producer \<Rightarrow> producer" where
  "createAndPushEntry targetBucket objectMds pr =
     pr\<lparr>resLog := resLog pr @ map (\<lambda>md. createPutEntry md targetBucket) objectMds\<rparr>"

text \<open>\<open>_getBucketObjectsMetadata\<close>: the metadata of each listed object, in list order.\<close>

fun getBucketObjectsMetadata ::
  "source_cluster \<Rightarrow> string \<Rightarrow> (string \<times> string list) option list \<Rightarrow> producer \<Rightarrow> producer" where
  "getBucketObjectsMetadata src targetBucket [] pr = pr"
| "getBucketObjectsMetadata src targetBucket (None # rest) pr =
     getBucketObjectsMetadata src targetBucket rest pr"
| "getBucketObjectsMetadata src targetBucket (Some (bucketName, ks) # rest) pr =
     getBucketObjectsMetadata src targetBucket rest
       (createAndPushEntry targetBucket
          (map (\<lambda>k. (objectMetadata src bucketName k, k, bucketName)) ks) pr)"

text \<open>
  \<open>snapshot(bucketName, done)\<close>: the callback gets the error, if any, and
  \<open>this.resLog\<close>, the producer's own array; the result here is what that array holds
  when the callback runs.
\<close>

definition snapshot ::
  "source_cluster \<Rightarrow> string \<Rightarrow> string \<Rightarrow> producer \<Rightarrow> producer \<times> error option \<times> log_entry list" where
  "snapshot src targetBucket bucketName pr =
     (case getBucketObjects src [bucketName] of
        Inl e \<Rightarrow> (pr, Some e, resLog pr)
      | Inr bucketList \<Rightarrow>
          (let pr1 = getBucketObjectsMetadata src targetBucket bucketList pr
           in (pr1, None, resLog pr1)))"

section \<open>IngestionProducer: reading the raft log\<close>

text \<open>
  How a record stream closes for the listeners of the reader: with \<open>end\<close>, with an
  \<open>error\<close> event that reaches them, with an exception raised where the error is
  emitted, before any listener of the reader runs (\<open>Raised\<close>), or not at all
  (\<open>Stalled\<close>).
\<close>

datatype stream_end = End | StreamError error | Raised | Stalled

text \<open>
  \<open>logRes.log\<close>: the array a snapshot hands over, or the record stream of a log read
  with the records its \<open>data\<close> listeners get and the way it closes.
\<close>

datatype log_data = LogList "log_entry list" | LogStream "log_record list" stream_end

record log_info =
  info_start :: "int option"
  info_end :: "int option"

record log_res =
  lr_info :: log_info
  lr_log :: "log_data js"

text \<open>
  What the source answers to the log read: an error on the read stream with its
  \<open>statusCode\<close> (if it has one) before any header, or a response whose header carries
  \<open>info\<close>, followed by the records of its log and then either the end of the body or
  an error (of the transport, or in the JSON).
\<close>

datatype response_end = Complete | Broken error

datatype transport = TransportError "nat option" | Response log_info "log_record list" response_end

text \<open>
  Node's stream buffering, which is not among the sources. \<open>getRaftLog\<close> pipes the
  parsed response into a \<open>ListRecordStream\<close> that nothing reads. Such a transform
  stream runs \<open>_transform\<close> on the first \<open>transformed\<close> records written to it and then
  holds what it is given; at the write of record number \<open>pausedAt\<close> it reports itself
  full, and the pipe pauses the parsed response for good (16 and 31 with the default
  high-water mark of object streams).
\<close>

record node_streams =
  transformed :: nat
  pausedAt :: nat

text \<open>\<open>ListRecordStream._transform\<close>: \<open>entry.type = entry.type || 'put'\<close> on the record's own entries.\<close>

definition defaultType :: "log_entry \<Rightarrow> log_entry" where
  "defaultType entry =
     entry\<lparr>e_type := (case e_type entry of
                          None \<Rightarrow> Some ''put''
                        | Some t \<Rightarrow> if t = [] then Some ''put'' else Some t)\<rparr>"

definition transform :: "log_record \<Rightarrow> log_record" where
  "transform itemObj = itemObj\<lparr>r_entries := map defaultType (r_entries itemObj)\<rparr>"

text \<open>
  The records the \<open>data\<close> listeners of the parsed response get when they are added
  after the pipe: every record up to the one that fills the \<open>ListRecordStream\<close>, the
  first ones after \<open>_transform\<close> has set their types.
\<close>

definition recordsEmitted :: "node_streams \<Rightarrow> log_record list \<Rightarrow> log_record list" where
  "recordsEmitted ns recs =
     (let emitted = (if pausedAt ns \<le> length recs then take (pausedAt ns) recs else recs)
      in map transform (take (transformed ns) emitted) @ drop (transformed ns) emitted)"

text \<open>
  How the parsed response closes after its header. The header listener removes every
  \<open>error\<close> listener of the \<open>ListRecordStream\<close>, and the error listeners of the read
  stream and of the parsed response, which come first, re-emit there: an error is
  raised where it is emitted. A paused response never emits \<open>end\<close>.
\<close>

definition streamClosing :: "node_streams \<Rightarrow> log_record list \<Rightarrow> response_end \<Rightarrow> stream_end" where
  "streamClosing ns recs fin =
     (case fin of
        Broken e \<Rightarrow> Raised
      | Complete \<Rightarrow> if pausedAt ns \<le> length recs then Stalled else End)"

text \<open>
  \<open>getRaftLog\<close>: before the header, the error listener of the record stream answers
  404 and 416 with \<open>{ info: { start: null, end: null } }\<close> and anything else with
  \<open>errors.InternalError\<close>; the header listener answers with the header's info and the
  parsed response, \<open>jsonResponse\<close>, as the log.
\<close>

definition getRaftLog :: "node_streams \<Rightarrow> transport \<Rightarrow> error + log_res" where
  "getRaftLog ns t =
     (case t of
        TransportError sc \<Rightarrow>
          (if sc = Some 404 then
             Inr \<lparr>lr_info = \<lparr>info_start = None, info_end = None\<rparr>, lr_log = Undefined\<rparr>
           else if sc = Some 416 then
             Inr \<lparr>lr_info = \<lparr>info_start = None, info_end = None\<rparr>, lr_log = Undefined\<rparr>
           else Inl InternalError)
      | Response info recs fin \<Rightarrow>
          Inr \<lparr>lr_info = info,
               lr_log = Val (LogStream (recordsEmitted ns recs) (streamClosing ns recs fin))\<rparr>)"

section \<open>IngestionReader: the batch cycle\<close>

text \<open>
  \<open>batchState\<close>, without its logger and its timing fields. \<open>initState\<close> and
  \<open>nextLogOffset\<close> are absent until a phase sets them.
\<close>

record batch_state =
  logRes :: "log_res option"
  nbLogRecordsRead :: nat
  nbLogEntriesRead :: nat
  publishedEntries :: nat
  entriesToPublish :: handle
  initState :: "init_state option"
  nextLogOffset :: "int option"

text \<open>The reader's own state: \<open>this.logOffset\<close> (set by \<open>setup\<close>) and \<open>this._batchInProgress\<close>.\<close>

record reader =
  logOffset :: int
  batchInProgress :: bool

text \<open>
  What a batch finds around the reader: the extensions installed, the source cluster,
  the reader's \<open>IngestionProducer\<close> (\<open>this._iProducer\<close>) as the batch finds it, the
  stream buffering of the platform, the source's answer to the log read, and the error
  of the bus producer's \<open>send\<close>, if any. The read options (\<open>startSeq\<close> from
  \<open>this.logOffset\<close>, \<open>limit\<close> from \<open>maxRead\<close>) only shape the request, so they do not
  appear.
\<close>

record batch_env =
  extensions :: "extension list"
  source :: source_cluster
  iProducer :: producer
  streams :: node_streams
  logResponse :: transport
  sendError :: "error option"

text \<open>
  The result the callback the reader passes to \<open>snapshot\<close> takes: \<open>res.logRes\<close> and
  \<open>res.initState\<close>.
\<close>

record snapshot_res =
  sr_logRes :: "log_entry list js"
  sr_initState :: "init_state option"

text \<open>
  That callback, \<open>(err, res) => ...\<close>. The producer of this repository never calls it
  (see \<open>processReadRecords\<close>).
\<close>

definition snapshotCallback ::
  "error option \<Rightarrow> snapshot_res option \<Rightarrow> batch_state \<Rightarrow> failure option \<times> batch_state" where
  "snapshotCallback err res bs =
     (case err of
        Some e \<Rightarrow> (Some (Failed e), bs)
      | None \<Rightarrow>
          (case res of
             None \<Rightarrow> (Some (Failed InternalError), bs)
           | Some r \<Rightarrow>
               (None,
                bs\<lparr>logRes := Some \<lparr>lr_info = \<lparr>info_start = Some 1, info_end = None\<rparr>,
                                    lr_log = (case sr_logRes r of
                                                Undefined \<Rightarrow> Undefined
                                              | Null \<Rightarrow> Null
                                              | Val es \<Rightarrow> Val (LogList es))\<rparr>,
                   initState := sr_initState r\<rparr>)))"

text \<open>
  \<open>_processReadRecords\<close>. In the tail phase the log is read. Otherwise the reader
  calls \<open>this._iProducer.snapshot(this.bucket, initState, callback)\<close>, while the
  producer's method is \<open>snapshot(bucketName, done)\<close>: the producer lists the bucket,
  pushes its entries and then calls \<open>done\<close>, which is the init state object and not a
  function, so a \<open>TypeError\<close> is raised and the reader's callback never runs.
\<close>

definition processReadRecords ::
  "reader_config \<Rightarrow> batch_env \<Rightarrow> batch_state \<Rightarrow> coordinator \<Rightarrow> failure option \<times> batch_state \<times> coordinator \<times> producer" where
  "processReadRecords cfg env bs zk =
     (case readInitState cfg zk of
        (Inl e, zk1) \<Rightarrow> (Some (Failed e), bs, zk1, iProducer env)
      | (Inr st, zk1) \<Rightarrow>
          (if isStatusComplete st then
             (case getRaftLog (streams env) (logResponse env) of
                Inl e \<Rightarrow> (Some (Failed e), bs, zk1, iProducer env)
              | Inr lr \<Rightarrow> (None, bs\<lparr>logRes := Some lr\<rparr>, zk1, iProducer env))
           else
             (case snapshot (source env) (targetZenkoBucket cfg) (bucket cfg) (iProducer env) of
                (pr1, err, entries) \<Rightarrow> (Some Thrown, bs, zk1, pr1))))"

text \<open>
  \<open>_processLogEntry\<close>, given \<open>record.db\<close> and the entry: nothing for an entry with
  neither key nor type, else the argument every extension's \<open>filter\<close> gets. In the two
  container branches \<open>entry.key.split\<close> raises when the entry has no key.
\<close>

definition processLogEntry :: "reader_config \<Rightarrow> string option \<Rightarrow> log_entry \<Rightarrow> failure + filter_arg option" where
  "processLogEntry cfg rdb entry =
     (if e_key entry = None \<and> e_type entry = None then Inr None
      else case rdb of
        None \<Rightarrow> Inr (Some \<lparr>f_type = e_type entry, f_bucket = e_bucket entry,
                            f_key = e_key entry, f_value = e_value entry\<rparr>)
      | Some d \<Rightarrow>
          (if d = [] then
             Inr (Some \<lparr>f_type = e_type entry, f_bucket = e_bucket entry,
                        f_key = e_key entry, f_value = e_value entry\<rparr>)
           else if d = ''users..bucket'' then
             (case e_key entry of
                None \<Rightarrow> Inl Thrown
              | Some k \<Rightarrow>
                  Inr (Some \<lparr>f_type = e_type entry, f_bucket = Some d,
                             f_key = Some (before_sep ''..|..'' k @ ''..|..'' @ targetZenkoBucket cfg),
                             f_value = e_value entry\<rparr>))
           else if d = ''metastore'' then
             (case e_key entry of
                None \<Rightarrow> Inl Thrown
              | Some k \<Rightarrow>
                  Inr (Some \<lparr>f_type = e_type entry, f_bucket = Some d,
                             f_key = Some (before_sep ''/'' k @ ''/'' @ targetZenkoBucket cfg),
                             f_value = e_value entry\<rparr>))
           else
             Inr (Some \<lparr>f_type = e_type entry, f_bucket = Some (targetZenkoBucket cfg),
                        f_key = (if Some d = e_key entry then Some (targetZenkoBucket cfg)
                                 else e_key entry),
                        f_value = e_value entry\<rparr>)))"

definition isVersionedLogKey :: "reader_config \<Rightarrow> string \<Rightarrow> bool" where
  "isVersionedLogKey cfg k = has_sep (VID_SEP cfg) k"

text \<open>The \<open>forEach\<close> over a snapshot's entries; \<open>_isVersionedLogKey\<close> raises on a missing key.\<close>

fun snapshotEntries ::
  "reader_config \<Rightarrow> extension list \<Rightarrow> log_entry list \<Rightarrow> batch_state \<Rightarrow> failure option \<times> batch_state" where
  "snapshotEntries cfg exts [] bs = (None, bs)"
| "snapshotEntries cfg exts (entry # rest) bs =
     (case e_key entry of
        None \<Rightarrow> (Some Thrown, bs)
      | Some k \<Rightarrow>
          (let bs1 = bs\<lparr>nbLogRecordsRead :=
                          (if isVersionedLogKey cfg k then nbLogRecordsRead bs + 1
                           else nbLogRecordsRead bs),
                        nbLogEntriesRead := nbLogEntriesRead bs + 1\<rparr>
           in case processLogEntry cfg (e_db entry) entry of
                Inl f \<Rightarrow> (Some f, bs1)
              | Inr None \<Rightarrow> snapshotEntries cfg exts rest bs1
              | Inr (Some a) \<Rightarrow>
                  snapshotEntries cfg exts rest
                    (bs1\<lparr>entriesToPublish := filterAll exts a (entriesToPublish bs1)\<rparr>)))"

text \<open>The \<open>forEach\<close> over the entries of one record of the tail log.\<close>

fun recordEntries ::
  "reader_config \<Rightarrow> extension list \<Rightarrow> string option \<Rightarrow> log_entry list \<Rightarrow> batch_state \<Rightarrow> failure option \<times> batch_state" where
  "recordEntries cfg exts rdb [] bs = (None, bs)"
| "recordEntries cfg exts rdb (entry # rest) bs =
     (let bs1 = bs\<lparr>nbLogEntriesRead := nbLogEntriesRead bs + 1\<rparr>
      in if rdb = Some (bucket cfg) then
           (case processLogEntry cfg rdb entry of
              Inl f \<Rightarrow> (Some f, bs1)
            | Inr None \<Rightarrow> recordEntries cfg exts rdb rest bs1
            | Inr (Some a) \<Rightarrow>
                recordEntries cfg exts rdb rest
                  (bs1\<lparr>entriesToPublish := filterAll exts a (entriesToPublish bs1)\<rparr>))
         else recordEntries cfg exts rdb rest bs1)"

text \<open>The \<open>data\<close> listener, once per record the stream delivers.\<close>

fun streamRecords ::
  "reader_config \<Rightarrow> extension list \<Rightarrow> log_record list \<Rightarrow> batch_state \<Rightarrow> failure option \<times> batch_state" where
  "streamRecords cfg exts [] bs = (None, bs)"
| "streamRecords cfg exts (r # rest) bs =
     (let bs1 = bs\<lparr>nbLogRecordsRead := nbLogRecordsRead bs + 1\<rparr>;
          bs2 = bs1\<lparr>entriesToPublish := setEntryBatch exts (entriesToPublish bs1)\<rparr>
      in case recordEntries cfg exts (r_db r) (r_entries r) bs2 of
           (Some f, bs3) \<Rightarrow> (Some f, bs3)
         | (None, bs3) \<Rightarrow>
             streamRecords cfg exts rest
               (bs3\<lparr>entriesToPublish := unsetEntryBatch exts (entriesToPublish bs3)\<rparr>))"

definition processPrepareEntries ::
  "reader_config \<Rightarrow> extension list \<Rightarrow> batch_state \<Rightarrow> failure option \<times> batch_state" where
  "processPrepareEntries cfg exts bs =
     (case logRes bs of
        None \<Rightarrow> (Some Thrown, bs)
      | Some lr \<Rightarrow>
          (case lr_log lr of
             Undefined \<Rightarrow> (None, bs)
           | Null \<Rightarrow> (None, bs)
           | Val l \<Rightarrow>
               (case initState bs of
                  Some st \<Rightarrow>
                    (let bs1 = bs\<lparr>entriesToPublish := setEntryBatch exts (entriesToPublish bs)\<rparr>
                     in case l of
                          LogStream recs fin \<Rightarrow> (Some Thrown, bs1)
                        | LogList es \<Rightarrow>
                            (case snapshotEntries cfg exts es bs1 of
                               (Some f, bs2) \<Rightarrow> (Some f, bs2)
                             | (None, bs2) \<Rightarrow>
                                 (None, bs2\<lparr>entriesToPublish :=
                                               unsetEntryBatch exts (entriesToPublish bs2)\<rparr>)))
                | None \<Rightarrow>
                    (if info_start (lr_info lr) = None then (None, bs)
                     else case l of
                            LogList es \<Rightarrow> (Some Thrown, bs)
                          | LogStream recs fin \<Rightarrow>
                              (case streamRecords cfg exts recs bs of
                                 (Some f, bs1) \<Rightarrow> (Some f, bs1)
                               | (None, bs1) \<Rightarrow>
                                   (case fin of
                                      End \<Rightarrow> (None, bs1)
                                    | StreamError e \<Rightarrow> (Some (Failed e), bs1)
                                    | Raised \<Rightarrow> (Some Thrown, bs1)
                                    | Stalled \<Rightarrow> (Some Hung, bs1)))))))"

text \<open>
  \<open>_processPublishEntries\<close>: the next offset is staged on the batch before the staged
  entries are looked up, so it is there whatever happens next. \<open>null + n\<close> is \<open>n\<close>.
  Reading \<open>length\<close> of a topic the handle does not hold raises. The bus is the list of
  entries sent so far. Publishing the queue metrics has no part in the batch's result
  and is left out.
\<close>

definition stageNextLogOffset :: "batch_state \<Rightarrow> failure + batch_state" where
  "stageNextLogOffset bs =
     (let bs1 = (case initState bs of
                   None \<Rightarrow> bs
                 | Some st \<Rightarrow>
                     (case cseq st of
                        None \<Rightarrow> bs
                      | Some c \<Rightarrow> if c = 0 then bs else bs\<lparr>nextLogOffset := Some c\<rparr>))
      in case initState bs of
           Some st \<Rightarrow> Inr bs1
         | None \<Rightarrow>
             (case logRes bs of
                None \<Rightarrow> Inl Thrown
              | Some lr \<Rightarrow>
                  Inr (bs1\<lparr>nextLogOffset :=
                             Some ((case info_start (lr_info lr) of None \<Rightarrow> 0 | Some s \<Rightarrow> s)
                                   + int (nbLogRecordsRead bs))\<rparr>)))"

definition processPublishEntries ::
  "reader_config \<Rightarrow> error option \<Rightarrow> batch_state \<Rightarrow> kafka_entry list \<Rightarrow> failure option \<times> batch_state \<times> kafka_entry list" where
  "processPublishEntries cfg sendErr bs bus =
     (case stageNextLogOffset bs of
        Inl f \<Rightarrow> (Some f, bs, bus)
      | Inr bs1 \<Rightarrow>
          (case entriesToPublish bs1 (targetZenkoBucket cfg) of
             None \<Rightarrow> (Some Thrown, bs1, bus)
           | Some entries \<Rightarrow>
               (if length entries = 0 then (None, bs1, bus)
                else case sendErr of
                       Some e \<Rightarrow> (Some (Failed e), bs1, bus)
                     | None \<Rightarrow> (None, bs1\<lparr>publishedEntries := length entries\<rparr>, bus @ entries))))"

text \<open>
  Modelled from the spec: \<open>LogReader._writeLogOffset\<close> is not among the sources. The
  spec's progress store keeps the log offset in an integer node and has
  \<open>writeLogOffset(n)\<close> write only when strictly increasing: the reader's \<open>logOffset\<close>
  is put in the node when it is greater than what the node holds, unless the
  coordinator refuses the request.
\<close>

definition writeLogOffset :: "reader_config \<Rightarrow> reader \<Rightarrow> coordinator \<Rightarrow> error option \<times> coordinator" where
  "writeLogOffset cfg rd zk =
     (if logOffset rd > offsetNode zk then
        (if failing zk SetData (pathToLogOffset cfg)
         then (Some (ZkFailure SetData (pathToLogOffset cfg)), zk)
         else (None, zk\<lparr>offsetNode := logOffset rd,
                         offsetWrites := offsetWrites zk @ [logOffset rd]\<rparr>))
      else (None, zk))"

definition processSaveLogOffset ::
  "reader_config \<Rightarrow> batch_state \<Rightarrow> reader \<Rightarrow> coordinator \<Rightarrow> failure option \<times> reader \<times> coordinator" where
  "processSaveLogOffset cfg bs rd zk =
     (case writeInitState cfg (initState bs) zk of
        (Some e, zk1) \<Rightarrow> (Some (Failed e), rd, zk1)
      | (None, zk1) \<Rightarrow>
          (case nextLogOffset bs of
             None \<Rightarrow> (None, rd, zk1)
           | Some n \<Rightarrow>
               (if n \<noteq> logOffset rd then
                  (let rd1 = (if n > logOffset rd then rd\<lparr>logOffset := n\<rparr> else rd)
                   in case writeLogOffset cfg rd1 zk1 of
                        (None, zk2) \<Rightarrow> (None, rd1, zk2)
                      | (Some e, zk2) \<Rightarrow> (Some (Failed e), rd1, zk2))
                else (None, rd, zk1))))"

definition newBatchState :: batch_state where
  "newBatchState = \<lparr>logRes = None, nbLogRecordsRead = 0, nbLogEntriesRead = 0,
                     publishedEntries = 0, entriesToPublish = Map.empty,
                     initState = None, nextLogOffset = None\<rparr>"

text \<open>
  How a batch leaves \<open>_batchInProgress\<close>: the final callback of the waterfall clears it,
  with or without an error; when a phase never calls back, it stays set.
\<close>

definition batchEnded :: "failure option \<Rightarrow> reader \<Rightarrow> reader" where
  "batchEnded r rd = (case r of
                        None \<Rightarrow> rd\<lparr>batchInProgress := False\<rparr>
                      | Some f \<Rightarrow> (case f of Failed e \<Rightarrow> rd\<lparr>batchInProgress := False\<rparr>
                                            | Thrown \<Rightarrow> rd
                                            | Hung \<Rightarrow> rd))"

record batch_result =
  outcome :: "failure option"
  batch :: batch_state
  readerAfter :: reader
  zkAfter :: coordinator
  busAfter :: "kafka_entry list"
  producerAfter :: producer

text \<open>\<open>processLogEntries\<close>: the four phases in a waterfall; the first failure ends the batch.\<close>

definition processLogEntries ::
  "reader_config \<Rightarrow> batch_env \<Rightarrow> reader \<Rightarrow> coordinator \<Rightarrow> kafka_entry list \<Rightarrow> batch_result" where
  "processLogEntries cfg env rd zk bus =
     (let rd0 = rd\<lparr>batchInProgress := True\<rparr>
      in case processReadRecords cfg env newBatchState zk of
           (Some f, bs1, zk1, pr1) \<Rightarrow>
             \<lparr>outcome = Some f, batch = bs1, readerAfter = batchEnded (Some f) rd0,
              zkAfter = zk1, busAfter = bus, producerAfter = pr1\<rparr>
         | (None, bs1, zk1, pr1) \<Rightarrow>
             (case processPrepareEntries cfg (extensions env) bs1 of
                (Some f, bs2) \<Rightarrow>
                  \<lparr>outcome = Some f, batch = bs2, readerAfter = batchEnded (Some f) rd0,
                   zkAfter = zk1, busAfter = bus, producerAfter = pr1\<rparr>
              | (None, bs2) \<Rightarrow>
                  (case processPublishEntries cfg (sendError env) bs2 bus of
                     (Some f, bs3, bus1) \<Rightarrow>
                       \<lparr>outcome = Some f, batch = bs3, readerAfter = batchEnded (Some f) rd0,
                        zkAfter = zk1, busAfter = bus1, producerAfter = pr1\<rparr>
                   | (None, bs3, bus1) \<Rightarrow>
                       (case processSaveLogOffset cfg bs3 rd0 zk1 of
                          (r, rd1, zk2) \<Rightarrow>
                            \<lparr>outcome = r, batch = bs3, readerAfter = batchEnded r rd1,
                             zkAfter = zk2, busAfter = bus1, producerAfter = pr1\<rparr>))))"



section \<open>KafkaBacklogMetrics\<close>

text \<open>A number as a template literal or \<open>toString\<close> prints it.\<close>

fun showNat :: "nat \<Rightarrow> string" where
  "showNat n = (if n < 10 then [''0123456789'' ! n]
                else showNat (n div 10) @ [''0123456789'' ! (n mod 10)])"

definition showInt :: "int \<Rightarrow> string" where
  "showInt i = (if i < 0 then ''-'' @ showNat (nat (- i)) else showNat (nat i))"

definition getPartitionsOffsetsZkPath :: "string \<Rightarrow> string \<Rightarrow> string" where
  "getPartitionsOffsetsZkPath zkPath topic = zkPath @ ''/'' @ topic"

text \<open>\<open>_getOffsetZkPath\<close>: the label is appended when it is truthy.\<close>

definition getOffsetZkPath :: "string \<Rightarrow> string \<Rightarrow> string \<Rightarrow> string \<Rightarrow> string option \<Rightarrow> string" where
  "getOffsetZkPath zkPath topic part offsetType label =
     (let basePath = getPartitionsOffsetsZkPath zkPath topic @ ''/'' @ part @ ''/'' @ offsetType
      in case label of
           None \<Rightarrow> basePath
         | Some l \<Rightarrow> if l = [] then basePath else basePath @ ''/'' @ l)"

text \<open>One \<open>setOrCreate\<close> request: the path and the data.\<close>

record zk_request =
  rq_path :: string
  rq_data :: string

text \<open>
  A consumer's \<open>position()\<close> entry, and the consumer: its positions (or the exception
  \<open>position()\<close> raises) and the high watermark \<open>queryWatermarkOffsets\<close> answers with.
\<close>

record topic_partition =
  tp_topic :: string
  tp_partition :: nat
  tp_offset :: "int option"

record kafka_consumer =
  position :: "error + topic_partition list"
  highOffset :: "string \<Rightarrow> nat \<Rightarrow> error + int"

text \<open>
  \<open>_publishOffset\<close>: the request it issues and the error its callback gets. Which
  requests the coordinator refuses is given by \<open>refused\<close>. The helper \<open>setOrCreate\<close>
  itself is not among the sources.
\<close>

definition publishOffset ::
  "string \<Rightarrow> (string \<Rightarrow> bool) \<Rightarrow> string \<Rightarrow> nat \<Rightarrow> int \<Rightarrow> string \<Rightarrow> string option \<Rightarrow> error option \<times> zk_request" where
  "publishOffset zkPath refused topic part offset offsetType label =
     (let p = getOffsetZkPath zkPath topic (showNat part) offsetType label
      in (if refused p then Some (ZkFailure SetData p) else None,
          \<lparr>rq_path = p, rq_data = showInt offset\<rparr>))"

definition getLatestTopicOffset :: "kafka_consumer \<Rightarrow> string \<Rightarrow> nat \<Rightarrow> error + int" where
  "getLatestTopicOffset consumer topic part =
     (case highOffset consumer topic part of
        Inl e \<Rightarrow> Inl InternalError
      | Inr h \<Rightarrow> Inr h)"

text \<open>
  The iteratee of \<open>publishConsumerBacklog\<close> for one position \<open>p\<close> whose offset is set:
  once the watermark is known, \<open>async.parallel\<close> starts its two tasks in array order,
  each issuing its request at once. The result is the error passed on and the requests
  in the order they are issued.
\<close>

definition publishPartition ::
  "string \<Rightarrow> (string \<Rightarrow> bool) \<Rightarrow> kafka_consumer \<Rightarrow> string \<Rightarrow> string option \<Rightarrow> nat \<Rightarrow> int \<Rightarrow> error option \<times> zk_request list" where
  "publishPartition zkPath refused consumer topic groupId part offset =
     (case getLatestTopicOffset consumer topic part of
        Inl e \<Rightarrow> (Some e, [])
      | Inr topicOffset \<Rightarrow>
          (case publishOffset zkPath refused topic part offset ''consumers'' groupId of
             (e1, rq1) \<Rightarrow>
               (case publishOffset zkPath refused topic part topicOffset ''topic'' None of
                  (e2, rq2) \<Rightarrow>
                    (case e1 of Some e \<Rightarrow> Some e | None \<Rightarrow> e2, [rq1, rq2]))))"

text \<open>
  \<open>publishConsumerBacklog\<close> keeps the positions of the topic whose offset is set; an
  exception of \<open>position()\<close> is logged and leaves nothing to do. \<open>async.eachLimit\<close>
  then runs the iteratee on the positions kept, up to ten at a time and on none once
  one has failed, so which of them run and how the requests of different partitions
  interleave is not fixed by the code. The result here is, for every position kept, its
  partition and what its iteratee does once it runs.
\<close>

definition backlogIteratees ::
  "string \<Rightarrow> (string \<Rightarrow> bool) \<Rightarrow> kafka_consumer \<Rightarrow> string \<Rightarrow> string option \<Rightarrow> (nat \<times> error option \<times> zk_request list) list" where
  "backlogIteratees zkPath refused consumer topic groupId =
     (case position consumer of
        Inl e \<Rightarrow> []
      | Inr ps \<Rightarrow>
          concat (map (\<lambda>p. case tp_offset p of
                             None \<Rightarrow> []
                           | Some offset \<Rightarrow>
                               [(tp_partition p,
                                 publishPartition zkPath refused consumer topic groupId
                                   (tp_partition p) offset)])
                      (filter (\<lambda>p. tp_topic p = topic \<and> tp_offset p \<noteq> None) ps)))"

text \<open>
  The coordinator as the lag check reads it: what \<open>getData\<close> and \<open>getChildren\<close>
  answer for a path. For an offset node the data is given by what \<open>JSON.parse\<close> and
  \<open>Number.isInteger\<close> make of it.
\<close>

datatype offset_node = Malformed | NotInteger | Offset int

record offsets_zk =
  oz_getData :: "string \<Rightarrow> error + offset_node"
  oz_getChildren :: "string \<Rightarrow> error + string list"

text \<open>The \<open>info\<close> object of one consumer offset; \<open>checkInfo\<close> is the first whose lag is too high.\<close>

record check_info =
  ci_topic :: string
  ci_partition :: string
  ci_groupId :: "string option"
  ci_consumerOffset :: int
  ci_lag :: int
  ci_maxLag :: int
  ci_snapshotName :: "string option"
  ci_snapshotOffset :: "int option"
  ci_topicOffset :: "int option"

text \<open>
  How one partition's check or the whole series stops early: the two private error
  instances of the module, or an error passed on.
\<close>

datatype stop = CheckConditionError check_info | NoNodeError | OtherError error

text \<open>The three ways the check calls back: \<open>cb()\<close>, \<open>cb(null, checkInfo)\<close>, \<open>cb(err)\<close>.\<close>

datatype check_result = CheckOk | Lagging check_info | CheckFailed error

definition isNoNode :: "error \<Rightarrow> bool" where
  "isNoNode e = (case e of NoNode p \<Rightarrow> True | InternalError \<Rightarrow> False
                 | ZkFailure a p \<Rightarrow> False | External m \<Rightarrow> False)"

definition readOffset ::
  "string \<Rightarrow> offsets_zk \<Rightarrow> string \<Rightarrow> string \<Rightarrow> string \<Rightarrow> string option \<Rightarrow> stop + int" where
  "readOffset zkPath zk topic part offsetType label =
     (case oz_getData zk (getOffsetZkPath zkPath topic part offsetType label) of
        Inl e \<Rightarrow> if isNoNode e then Inl NoNodeError else Inl (OtherError InternalError)
      | Inr d \<Rightarrow>
          (case d of
             Malformed \<Rightarrow> Inl (OtherError InternalError)
           | NotInteger \<Rightarrow> Inl (OtherError InternalError)
           | Offset n \<Rightarrow> Inr n))"

fun readLabels ::
  "string \<Rightarrow> offsets_zk \<Rightarrow> string \<Rightarrow> string \<Rightarrow> string \<Rightarrow> string list \<Rightarrow> stop + (string option \<times> int) list" where
  "readLabels zkPath zk topic part offsetType [] = Inr []"
| "readLabels zkPath zk topic part offsetType (l # ls) =
     (case readOffset zkPath zk topic part offsetType (Some l) of
        Inl e \<Rightarrow> Inl e
      | Inr n \<Rightarrow>
          (case readLabels zkPath zk topic part offsetType ls of
             Inl e \<Rightarrow> Inl e
           | Inr rest \<Rightarrow> Inr ((Some l, n) # rest)))"

definition readAllOffsets ::
  "string \<Rightarrow> offsets_zk \<Rightarrow> string \<Rightarrow> string \<Rightarrow> string \<Rightarrow> stop + (string option \<times> int) list" where
  "readAllOffsets zkPath zk topic part offsetType =
     (case oz_getChildren zk (getOffsetZkPath zkPath topic part offsetType None) of
        Inl e \<Rightarrow> if isNoNode e then Inr [] else Inl (OtherError e)
      | Inr labels \<Rightarrow> readLabels zkPath zk topic part offsetType labels)"

definition truthy :: "string option \<Rightarrow> bool" where
  "truthy x = (case x of None \<Rightarrow> False | Some s \<Rightarrow> s \<noteq> [])"

text \<open>
  The first step of the waterfall, with the wrapping of a single offset the third step
  does: the consumer offsets of the partition with their labels.
\<close>

definition consumerOffsets ::
  "string \<Rightarrow> offsets_zk \<Rightarrow> string \<Rightarrow> string option \<Rightarrow> string \<Rightarrow> stop + (string option \<times> int) list" where
  "consumerOffsets zkPath zk topic groupId part =
     (if truthy groupId then
        (case readOffset zkPath zk topic part ''consumers'' groupId of
           Inl e \<Rightarrow> Inl e
         | Inr n \<Rightarrow> Inr [(groupId, n)])
      else readAllOffsets zkPath zk topic part ''consumers'')"

definition targetOffset ::
  "string \<Rightarrow> offsets_zk \<Rightarrow> string \<Rightarrow> string option \<Rightarrow> string \<Rightarrow> stop + int" where
  "targetOffset zkPath zk topic snapshotName part =
     (if truthy snapshotName then readOffset zkPath zk topic part ''snapshots'' snapshotName
      else readOffset zkPath zk topic part ''topic'' None)"

definition lagOf :: "int \<Rightarrow> int \<Rightarrow> int" where
  "lagOf target consumerOffset =
     (let lag = target - consumerOffset in if lag < 0 then 0 else lag)"

text \<open>
  The \<open>info\<close> object built for one consumer offset. \<open>partition\<close> holds the child name
  that \<open>Number.parseInt\<close> is applied to.
\<close>

definition lagInfo ::
  "string \<Rightarrow> string \<Rightarrow> int \<Rightarrow> string option \<Rightarrow> int \<Rightarrow> string option \<times> int \<Rightarrow> check_info" where
  "lagInfo topic part maxLag snapshotName target c =
     \<lparr>ci_topic = topic, ci_partition = part, ci_groupId = fst c, ci_consumerOffset = snd c,
      ci_lag = lagOf target (snd c), ci_maxLag = maxLag,
      ci_snapshotName = (if truthy snapshotName then snapshotName else None),
      ci_snapshotOffset = (if truthy snapshotName then Some target else None),
      ci_topicOffset = (if truthy snapshotName then None else Some target)\<rparr>"

text \<open>The \<open>forEach\<close> of the third step: the info of the first offset whose lag is too high.\<close>

fun firstLagging ::
  "string \<Rightarrow> string \<Rightarrow> int \<Rightarrow> string option \<Rightarrow> int \<Rightarrow> (string option \<times> int) list \<Rightarrow> check_info option" where
  "firstLagging topic part maxLag snapshotName target [] = None"
| "firstLagging topic part maxLag snapshotName target (c # cs) =
     (if lagOf target (snd c) > maxLag then Some (lagInfo topic part maxLag snapshotName target c)
      else firstLagging topic part maxLag snapshotName target cs)"

definition checkPartition ::
  "string \<Rightarrow> offsets_zk \<Rightarrow> string \<Rightarrow> string option \<Rightarrow> int \<Rightarrow> string option \<Rightarrow> string \<Rightarrow> stop option" where
  "checkPartition zkPath zk topic groupId maxLag snapshotName part =
     (case consumerOffsets zkPath zk topic groupId part of
        Inl e \<Rightarrow> Some e
      | Inr cs \<Rightarrow>
          (case targetOffset zkPath zk topic snapshotName part of
             Inl e \<Rightarrow> Some e
           | Inr target \<Rightarrow>
               (case firstLagging topic part maxLag snapshotName target cs of
                  Some info \<Rightarrow> Some (CheckConditionError info)
                | None \<Rightarrow> None)))"

text \<open>\<open>async.eachSeries\<close> over the partitions: the first one to stop ends the series.\<close>

fun eachPartition ::
  "string \<Rightarrow> offsets_zk \<Rightarrow> string \<Rightarrow> string option \<Rightarrow> int \<Rightarrow> string option \<Rightarrow> string list \<Rightarrow> stop option" where
  "eachPartition zkPath zk topic groupId maxLag snapshotName [] = None"
| "eachPartition zkPath zk topic groupId maxLag snapshotName (part # rest) =
     (case checkPartition zkPath zk topic groupId maxLag snapshotName part of
        Some e \<Rightarrow> Some e
      | None \<Rightarrow> eachPartition zkPath zk topic groupId maxLag snapshotName rest)"

definition checkConsumerOffsetsGeneric ::
  "string \<Rightarrow> offsets_zk \<Rightarrow> string \<Rightarrow> string option \<Rightarrow> int \<Rightarrow> string option \<Rightarrow> check_result" where
  "checkConsumerOffsetsGeneric zkPath zk topic groupId maxLag snapshotName =
     (case oz_getChildren zk (getPartitionsOffsetsZkPath zkPath topic) of
        Inl e \<Rightarrow> if isNoNode e then CheckOk else CheckFailed e
      | Inr partitions \<Rightarrow>
          (case eachPartition zkPath zk topic groupId maxLag snapshotName partitions of
             None \<Rightarrow> CheckOk
           | Some e \<Rightarrow>
               (case e of
                  CheckConditionError info \<Rightarrow> Lagging info
                | NoNodeError \<Rightarrow> CheckOk
                | OtherError x \<Rightarrow> CheckFailed x)))"

definition checkConsumerLag ::
  "string \<Rightarrow> offsets_zk \<Rightarrow> string \<Rightarrow> string option \<Rightarrow> int \<Rightarrow> check_result" where
  "checkConsumerLag zkPath zk topic groupId maxLag =
     checkConsumerOffsetsGeneric zkPath zk topic groupId maxLag None"

definition checkConsumerProgress ::
  "string \<Rightarrow> offsets_zk \<Rightarrow> string \<Rightarrow> string option \<Rightarrow> string option \<Rightarrow> check_result" where
  "checkConsumerProgress zkPath zk topic groupId snapshotName =
     checkConsumerOffsetsGeneric zkPath zk topic groupId 0 snapshotName"

text \<open>
  For stating what the check returns: given the consumer offsets \<open>cs p\<close> and the target
  offset \<open>t p\<close> of each partition, the infos of all consumer offsets in the order the
  check visits them (partition by partition, label by label), those kept whose lag
  exceeds \<open>maxLag\<close>.
\<close>

definition laggingInfos ::
  "string \<Rightarrow> int \<Rightarrow> (string \<Rightarrow> (string option \<times> int) list) \<Rightarrow> (string \<Rightarrow> int) \<Rightarrow> string list \<Rightarrow> check_info list" where
  "laggingInfos topic maxLag cs t ps =
     filter (\<lambda>i. ci_lag i > maxLag)
       (concat (map (\<lambda>p. map (lagInfo topic p maxLag None (t p)) (cs p)) ps))"

section \<open>Example inputs\<close>

text \<open>
  A reader for source bucket \<open>bucket1\<close> ingesting into \<open>zenkobucket\<close>, an extension
  that stages one entry per event under the event's bucket, creating the topic's list
  on first use, and a coordinator that holds the three init nodes and log offset 7 and
  refuses nothing.
\<close>

definition exampleConfig :: reader_config where
  "exampleConfig = \<lparr>bucket = ''bucket1'', targetZenkoBucket = ''zenkobucket'',
                     zookeeperPath = ''/ingestion'', raftId = ''1'', VID_SEP = [CHR 0x00]\<rparr>"

definition exampleExtension :: extension where
  "exampleExtension =
     \<lparr>ext_setBatch = (\<lambda>h. h),
      ext_filter = (\<lambda>a h. case f_bucket a of
                             None \<Rightarrow> h
                           | Some b \<Rightarrow>
                               h(b \<mapsto> (case h b of None \<Rightarrow> [] | Some es \<Rightarrow> es)
                                       @ [(b @ ''/'' @ (case f_key a of None \<Rightarrow> [] | Some k \<Rightarrow> k),
                                           case f_value a of None \<Rightarrow> [] | Some v \<Rightarrow> v)])),
      ext_unsetBatch = (\<lambda>h. h)\<rparr>"

definition initNodes :: "string \<Rightarrow> string \<rightharpoonup> string option" where
  "initNodes status =
     [''/ingestion/zenkobucket/init/isStatusComplete'' \<mapsto> Some status,
      ''/ingestion/zenkobucket/init/versionMarker'' \<mapsto> Some ''null'',
      ''/ingestion/zenkobucket/init/keyMarker'' \<mapsto> Some ''null'']"

definition exampleCoordinator :: "string \<Rightarrow> coordinator" where
  "exampleCoordinator status =
     \<lparr>nodes = initNodes status, failing = (\<lambda>a p. False), offsetNode = 7, offsetWrites = []\<rparr>"

definition putRecord :: "string \<Rightarrow> string \<Rightarrow> log_record" where
  "putRecord d k = \<lparr>r_db = Some d,
                    r_entries = [\<lparr>e_type = Some ''put'', e_bucket = None, e_key = Some k,
                                  e_value = Some ''{}'', e_db = None\<rparr>]\<rparr>"

text \<open>A source cluster whose bucket \<open>bucket1\<close> holds the single object \<open>object1\<close>.\<close>

definition exampleSource :: source_cluster where
  "exampleSource =
     \<lparr>objectList = (\<lambda>b. if b = ''bucket1'' then Inr [''object1'']
                         else Inl (External ''NoSuchBucket'')),
      objectMetadata = (\<lambda>b k. Some ''{}'')\<rparr>"

text \<open>The buffering of object streams with the default high-water mark.\<close>

definition exampleStreams :: node_streams where
  "exampleStreams = \<lparr>transformed = 16, pausedAt = 31\<rparr>"

text \<open>What a batch finds when the log read is answered as given.\<close>

definition answerEnv :: "transport \<Rightarrow> batch_env" where
  "answerEnv t =
     \<lparr>extensions = [exampleExtension],
      source = exampleSource,
      iProducer = newProducer,
      streams = exampleStreams,
      logResponse = t,
      sendError = None\<rparr>"

text \<open>A tail batch: the source answers the log read with a header and records.\<close>

definition tailEnv :: "int option \<Rightarrow> log_record list \<Rightarrow> batch_env" where
  "tailEnv s recs = answerEnv (Response \<lparr>info_start = s, info_end = None\<rparr> recs Complete)"

text \<open>A coordinator on which the reader has created nothing yet.\<close>

definition freshCoordinator :: coordinator where
  "freshCoordinator = \<lparr>nodes = Map.empty, failing = (\<lambda>a p. False), offsetNode = 1,
                        offsetWrites = []\<rparr>"

text \<open>A tail batch whose log read fails with the given status code.\<close>

definition errorEnv :: "nat \<Rightarrow> batch_env" where
  "errorEnv sc = answerEnv (TransportError (Some sc))"

text \<open>An init state as a snapshot that has not started leaves it.\<close>

definition notStarted :: init_state where
  "notStarted = \<lparr>isStatusComplete = False, versionMarker = None, keyMarker = None, cseq = None\<rparr>"

text \<open>A consumer of topic T at offset 90 of partition 0, whose high watermark is 100.\<close>

definition exampleConsumer :: kafka_consumer where
  "exampleConsumer =
     \<lparr>position = Inr [\<lparr>tp_topic = ''T'', tp_partition = 0, tp_offset = Some 90\<rparr>],
      highOffset = (\<lambda>t p. Inr 100)\<rparr>"

text \<open>Topic T with partitions 0 and 1: watermarks 100 and 200, group G at 90 and 195.\<close>

definition exampleOffsets :: offsets_zk where
  "exampleOffsets =
     \<lparr>oz_getData = (\<lambda>p. if p = ''/backlog/T/0/topic'' then Inr (Offset 100)
                         else if p = ''/backlog/T/1/topic'' then Inr (Offset 200)
                         else if p = ''/backlog/T/0/consumers/G'' then Inr (Offset 90)
                         else if p = ''/backlog/T/1/consumers/G'' then Inr (Offset 195)
                         else Inl (NoNode p)),
      oz_getChildren = (\<lambda>p. if p = ''/backlog/T'' then Inr [''0'', ''1'']
                             else if p = ''/backlog/T/0/consumers'' then Inr [''G'']
                             else if p = ''/backlog/T/1/consumers'' then Inr [''G'']
                             else Inl (NoNode p))\<rparr>"

text \<open>
  The same topic when group G has published its offset, 0, for partition 1 only.
\<close>

definition partialOffsets :: offsets_zk where
  "partialOffsets =
     \<lparr>oz_getData = (\<lambda>p. if p = ''/backlog/T/0/topic'' then Inr (Offset 100)
                         else if p = ''/backlog/T/1/topic'' then Inr (Offset 200)
                         else if p = ''/backlog/T/1/consumers/G'' then Inr (Offset 0)
                         else Inl (NoNode p)),
      oz_getChildren = (\<lambda>p. if p = ''/backlog/T'' then Inr [''0'', ''1'']
                             else if p = ''/backlog/T/1/consumers'' then Inr [''G'']
                             else Inl (NoNode p))\<rparr>"

section \<open>Properties of the batch cycle\<close>

subsection \<open>Framing and counting in the prepare phase\<close>

lemma recordEntries_frame:
  "recordEntries cfg exts rdb es bs = (r, bs') \<Longrightarrow>
     nbLogRecordsRead bs' = nbLogRecordsRead bs \<and> logRes bs' = logRes bs \<and>
     initState bs' = initState bs \<and> nextLogOffset bs' = nextLogOffset bs"
proof (induction es arbitrary: bs)
  case Nil
  then show ?case by simp
next
  case (Cons entry rest)
  then show ?case
    by (auto simp: Let_def split: if_splits sum.splits option.splits)
qed

lemma streamRecords_frame:
  "streamRecords cfg exts recs bs = (r, bs') \<Longrightarrow>
     logRes bs' = logRes bs \<and> initState bs' = initState bs \<and> nextLogOffset bs' = nextLogOffset bs"
proof (induction recs arbitrary: bs)
  case Nil
  then show ?case by simp
next
  case (Cons rcd rest)
  show ?case
  proof (cases "recordEntries cfg exts (r_db rcd) (r_entries rcd)
      (bs\<lparr>nbLogRecordsRead := nbLogRecordsRead bs + 1,
          entriesToPublish := setEntryBatch exts (entriesToPublish bs)\<rparr>)")
    case (Pair q bs3)
    note fr = recordEntries_frame [OF Pair]
    show ?thesis
    proof (cases q)
      case None
      with Cons.prems Pair have
        "streamRecords cfg exts rest
           (bs3\<lparr>entriesToPublish := unsetEntryBatch exts (entriesToPublish bs3)\<rparr>) = (r, bs')"
        by (simp add: Let_def)
      from Cons.IH [OF this] fr show ?thesis by simp
    next
      case (Some f)
      with Cons.prems Pair fr show ?thesis by (auto simp: Let_def)
    qed
  qed
qed

text \<open>Each record the listener handles adds one to \<open>nbLogRecordsRead\<close>.\<close>

lemma streamRecords_count:
  "streamRecords cfg exts recs bs = (None, bs') \<Longrightarrow>
     nbLogRecordsRead bs' = nbLogRecordsRead bs + length recs"
proof (induction recs arbitrary: bs)
  case Nil
  then show ?case by simp
next
  case (Cons rcd rest)
  show ?case
  proof (cases "recordEntries cfg exts (r_db rcd) (r_entries rcd)
      (bs\<lparr>nbLogRecordsRead := nbLogRecordsRead bs + 1,
          entriesToPublish := setEntryBatch exts (entriesToPublish bs)\<rparr>)")
    case (Pair q bs3)
    note fr = recordEntries_frame [OF Pair]
    show ?thesis
    proof (cases q)
      case None
      with Cons.prems Pair have
        "streamRecords cfg exts rest
           (bs3\<lparr>entriesToPublish := unsetEntryBatch exts (entriesToPublish bs3)\<rparr>) = (None, bs')"
        by (simp add: Let_def)
      from Cons.IH [OF this] fr show ?thesis by simp
    next
      case (Some f)
      with Cons.prems Pair show ?thesis by (simp add: Let_def)
    qed
  qed
qed

text \<open>Whether the listener raises depends on the records alone, not on the batch so far.\<close>

lemma recordEntries_fst:
  "fst (recordEntries cfg exts rdb es bs) = fst (recordEntries cfg exts rdb es bs2)"
proof (induction es arbitrary: bs bs2)
  case Nil
  show ?case by simp
next
  case (Cons entry rest)
  show ?case
  proof (cases "rdb = Some (bucket cfg)")
    case False
    then show ?thesis using Cons.IH by (simp add: Let_def)
  next
    case True
    show ?thesis
    proof (cases "processLogEntry cfg rdb entry")
      case (Inl f)
      with True show ?thesis by (simp add: Let_def)
    next
      case (Inr a)
      with True show ?thesis using Cons.IH by (cases a) (simp_all add: Let_def)
    qed
  qed
qed

lemma streamRecords_fst:
  "fst (streamRecords cfg exts recs bs) = fst (streamRecords cfg exts recs bs2)"
proof (induction recs arbitrary: bs bs2)
  case Nil
  show ?case by simp
next
  case (Cons rcd rest)
  let ?a = "recordEntries cfg exts (r_db rcd) (r_entries rcd)
      (bs\<lparr>nbLogRecordsRead := nbLogRecordsRead bs + 1,
          entriesToPublish := setEntryBatch exts (entriesToPublish bs)\<rparr>)"
  let ?b = "recordEntries cfg exts (r_db rcd) (r_entries rcd)
      (bs2\<lparr>nbLogRecordsRead := nbLogRecordsRead bs2 + 1,
          entriesToPublish := setEntryBatch exts (entriesToPublish bs2)\<rparr>)"
  have eq: "fst ?a = fst ?b" by (rule recordEntries_fst)
  obtain qa ba where a: "?a = (qa, ba)" by (cases ?a)
  obtain qb bb where b: "?b = (qb, bb)" by (cases ?b)
  from eq a b have b2: "?b = (qa, bb)" by simp
  show ?case
  proof (cases qa)
    case None
    with a b2 show ?thesis using Cons.IH by (simp add: Let_def)
  next
    case (Some f)
    with a b2 show ?thesis by (simp add: Let_def)
  qed
qed

lemma snapshotEntries_frame:
  "snapshotEntries cfg exts es bs = (r, bs') \<Longrightarrow>
     logRes bs' = logRes bs \<and> initState bs' = initState bs \<and> nextLogOffset bs' = nextLogOffset bs"
proof (induction es arbitrary: bs)
  case Nil
  then show ?case by simp
next
  case (Cons entry rest)
  then show ?case
    by (auto simp: Let_def split: if_splits sum.splits option.splits)
qed

lemma processPrepareEntries_frame:
  assumes "processPrepareEntries cfg exts bs = (r, bs')"
  shows "logRes bs' = logRes bs \<and> initState bs' = initState bs \<and> nextLogOffset bs' = nextLogOffset bs"
proof (cases "logRes bs")
  case None
  with assms show ?thesis by (simp add: processPrepareEntries_def)
next
  case (Some lr)
  show ?thesis
  proof (cases "lr_log lr")
    case Undefined
    with assms Some show ?thesis by (simp add: processPrepareEntries_def)
  next
    case Null
    with assms Some show ?thesis by (simp add: processPrepareEntries_def)
  next
    case (Val l)
    show ?thesis
    proof (cases "initState bs")
      case ist: (Some st)
      show ?thesis
      proof (cases l)
        case (LogStream recs fin)
        with assms Some Val ist show ?thesis by (auto simp: processPrepareEntries_def Let_def)
      next
        case (LogList es)
        let ?bs1 = "bs\<lparr>entriesToPublish := setEntryBatch exts (entriesToPublish bs)\<rparr>"
        obtain q bs2 where se: "snapshotEntries cfg exts es ?bs1 = (q, bs2)"
          by (cases "snapshotEntries cfg exts es ?bs1")
        from snapshotEntries_frame [OF se] assms Some Val ist LogList se show ?thesis
          by (cases q) (auto simp: processPrepareEntries_def Let_def)
      qed
    next
      case noist: None
      show ?thesis
      proof (cases l)
        case (LogList es)
        with assms Some Val noist show ?thesis
          by (auto simp: processPrepareEntries_def split: if_splits)
      next
        case (LogStream recs fin)
        obtain q bs2 where sr: "streamRecords cfg exts recs bs = (q, bs2)"
          by (cases "streamRecords cfg exts recs bs")
        from streamRecords_frame [OF sr] assms Some Val noist LogStream sr show ?thesis
          by (cases q; cases fin) (auto simp: processPrepareEntries_def split: if_splits)
      qed
    qed
  qed
qed

lemma processReadRecords_handle:
  "processReadRecords cfg env bs zk = (r, bs1, zk1, pr1) \<Longrightarrow> entriesToPublish bs1 = entriesToPublish bs"
  by (auto simp: processReadRecords_def split: prod.splits sum.splits if_splits option.splits)

lemma stageNextLogOffset_frame:
  "stageNextLogOffset bs = Inr bs1 \<Longrightarrow>
     entriesToPublish bs1 = entriesToPublish bs \<and> initState bs1 = initState bs \<and> logRes bs1 = logRes bs"
  by (auto simp: stageNextLogOffset_def Let_def split: option.splits if_splits)

subsection \<open>The coordinator's log-offset node\<close>

text \<open>Reading and writing the init state leave the log-offset node and its history alone.\<close>

lemma zk_mkdirp_writes: "zk_mkdirp zk p = (e, zk1) \<Longrightarrow> offsetWrites zk1 = offsetWrites zk \<and> failing zk1 = failing zk \<and> offsetNode zk1 = offsetNode zk"
  by (auto simp: zk_mkdirp_def split: if_splits option.splits)


lemma precreate_writes: "precreate zk prs = (es, zk1) \<Longrightarrow> offsetWrites zk1 = offsetWrites zk \<and> failing zk1 = failing zk \<and> offsetNode zk1 = offsetNode zk"
proof (induction prs arbitrary: zk es zk1)
  case Nil
  then show ?case by simp
next
  case (Cons pr rest)
  obtain p r where pr: "pr = (p, r)" by (cases pr)
  show ?case
  proof (cases r)
    case Absent
    obtain e zk2 where mk: "zk_mkdirp zk p = (e, zk2)" by (cases "zk_mkdirp zk p")
    obtain es2 zk3 where rec: "precreate zk2 rest = (es2, zk3)" by (cases "precreate zk2 rest")
    from Cons.prems pr Absent mk rec have "zk1 = zk3" by (cases e) auto
    with Cons.IH [OF rec] zk_mkdirp_writes [OF mk] show ?thesis by simp
  next
    case (ReadFailed e)
    with Cons pr show ?thesis by simp
  next
    case (Fetched d)
    with Cons pr show ?thesis by simp
  qed
qed

lemma readInitState_writes:
  "readInitState cfg zk = (r, zk1) \<Longrightarrow> offsetWrites zk1 = offsetWrites zk \<and> failing zk1 = failing zk \<and> offsetNode zk1 = offsetNode zk"
proof -
  assume a: "readInitState cfg zk = (r, zk1)"
  let ?prs = "[(initPath cfg ''isStatusComplete'', readNode zk (initPath cfg ''isStatusComplete'')),
               (initPath cfg ''versionMarker'', readNode zk (initPath cfg ''versionMarker'')),
               (initPath cfg ''keyMarker'', readNode zk (initPath cfg ''keyMarker''))]"
  obtain es zk2 where pc: "precreate zk ?prs = (es, zk2)" by (cases "precreate zk ?prs")
  from a pc have "zk1 = zk2"
    by (auto simp: readInitState_def Let_def split: list.splits)
  with precreate_writes [OF pc] show ?thesis by simp
qed














subsection \<open>Evaluating a batch on an example\<close>

lemmas batch_eval =
  processLogEntries_def Let_def processReadRecords_def getRaftLog_def recordsEmitted_def
  streamClosing_def transform_def defaultType_def newBatchState_def
  processPrepareEntries_def setEntryBatch_def unsetEntryBatch_def filterAll_def
  processLogEntry_def processPublishEntries_def stageNextLogOffset_def
  processSaveLogOffset_def writeInitState_def writeLogOffset_def batchEnded_def
  readInitState_def readNode_def readErrors_def nodeData_def zk_getData_def zk_mkdirp_def
  zk_setData_def initPath_def bucketInitPath_def zkBasePath_def pathToLogOffset_def
  getInitIngestionNodes_def initField_def isVersionedLogKey_def
  snapshot_def bucketObjects_def createAndPushEntry_def
  usersBucket_def metastoreBucket_def

lemmas example_defs =
  exampleConfig_def exampleExtension_def exampleCoordinator_def initNodes_def putRecord_def
  tailEnv_def answerEnv_def exampleStreams_def exampleSource_def newProducer_def
  freshCoordinator_def errorEnv_def

lemma readInit_example:
  "readInitState exampleConfig (exampleCoordinator ''true'') =
     (Inr \<lparr>isStatusComplete = True, versionMarker = Some ''null'', keyMarker = Some ''null'',
           cseq = None\<rparr>,
      exampleCoordinator ''true'')"
  by (simp add: readInitState_def readNode_def zk_getData_def initPath_def bucketInitPath_def
      zkBasePath_def exampleConfig_def exampleCoordinator_def initNodes_def readErrors_def
      nodeData_def)

subsection \<open>A batch in the snapshot phase\<close>

text \<open>
  What the publish phase does with an init state whose \<open>cseq\<close> is set (and not 0, which
  the test \<open>initState.cseq\<close> takes for unset): it stages it as \<open>nextLogOffset\<close>.
\<close>

lemma publish_stages_cseq:
  assumes "initState bs = Some st" and "cseq st = Some c" and "c \<noteq> 0"
  shows "stageNextLogOffset bs = Inr (bs\<lparr>nextLogOffset := Some c\<rparr>)"
  using assms by (simp add: stageNextLogOffset_def)

text \<open>
  What the reader's callback makes of a result with a \<open>logRes\<close> and an \<open>initState\<close>: it
  puts both on the batch.
\<close>

lemma snapshotCallback_result:
  "snapshotCallback None (Some \<lparr>sr_logRes = Val es, sr_initState = Some st\<rparr>) bs =
     (None, bs\<lparr>logRes := Some \<lparr>lr_info = \<lparr>info_start = Some 1, info_end = None\<rparr>,
                               lr_log = Val (LogList es)\<rparr>,
                initState := Some st\<rparr>)"
  by (simp add: snapshotCallback_def)

text \<open>
  No batch gets that far. Whenever the init state read from the coordinator is not
  complete, the call of \<open>snapshot\<close> raises: the batch stages no offset and the
  checkpoint is not reached.
\<close>

lemma snapshot_phase_raises:
  assumes init: "readInitState cfg zk = (Inr st, zk1)"
    and snap: "\<not> isStatusComplete st"
  shows "outcome (processLogEntries cfg env rd zk bus) = Some Thrown
       \<and> initState (batch (processLogEntries cfg env rd zk bus)) = None
       \<and> nextLogOffset (batch (processLogEntries cfg env rd zk bus)) = None
       \<and> logOffset (readerAfter (processLogEntries cfg env rd zk bus)) = logOffset rd
       \<and> offsetWrites (zkAfter (processLogEntries cfg env rd zk bus)) = offsetWrites zk"
proof -
  obtain pr1 err entries where
    s: "snapshot (source env) (targetZenkoBucket cfg) (bucket cfg) (iProducer env) = (pr1, err, entries)"
    by (cases "snapshot (source env) (targetZenkoBucket cfg) (bucket cfg) (iProducer env)")
  have p: "processReadRecords cfg env newBatchState zk = (Some Thrown, newBatchState, zk1, pr1)"
    using init snap s by (simp add: processReadRecords_def)
  from readInitState_writes [OF init] p show ?thesis
    by (simp add: processLogEntries_def Let_def batchEnded_def newBatchState_def)
qed

text \<open>
  C1. The cold start of the spec's first scenario: bucket \<open>bucket1\<close> holds one object,
  the coordinator holds nothing yet, the reader's \<open>logOffset\<close> is 1. Whatever the log
  read would answer, the batch does not complete: the call of \<open>snapshot\<close> raises after
  the producer has listed the bucket, no init state and no \<open>nextLogOffset\<close> are on the
  batch, the log-offset node is not written and \<open>logOffset\<close> stays 1. What the producer
  has to hand over is its list of put entries; it has no \<open>cseq\<close>.
\<close>

theorem snapshot_batch_raises:
  "outcome (processLogEntries exampleConfig (answerEnv t)
       \<lparr>logOffset = 1, batchInProgress = False\<rparr> freshCoordinator []) = Some Thrown
   \<and> initState (batch (processLogEntries exampleConfig (answerEnv t)
       \<lparr>logOffset = 1, batchInProgress = False\<rparr> freshCoordinator [])) = None
   \<and> nextLogOffset (batch (processLogEntries exampleConfig (answerEnv t)
       \<lparr>logOffset = 1, batchInProgress = False\<rparr> freshCoordinator [])) = None
   \<and> offsetWrites (zkAfter (processLogEntries exampleConfig (answerEnv t)
       \<lparr>logOffset = 1, batchInProgress = False\<rparr> freshCoordinator [])) = []
   \<and> logOffset (readerAfter (processLogEntries exampleConfig (answerEnv t)
       \<lparr>logOffset = 1, batchInProgress = False\<rparr> freshCoordinator [])) = 1
   \<and> snapshot exampleSource ''zenkobucket'' ''bucket1'' newProducer
      = (\<lparr>resLog = [createPutEntry (Some ''{}'', ''object1'', ''bucket1'') ''zenkobucket'']\<rparr>,
         None,
         [createPutEntry (Some ''{}'', ''object1'', ''bucket1'') ''zenkobucket''])"
  by (simp add: batch_eval example_defs)

subsection \<open>The log offset over a sequence of batches\<close>



subsection \<open>The offset a tail batch stages\<close>

lemma recordsEmitted_length:
  "length (recordsEmitted ns recs) = (if pausedAt ns \<le> length recs then pausedAt ns else length recs)"
  by (simp add: recordsEmitted_def Let_def min_def)

text \<open>
  A tail batch whose log is short enough for the stream to end, the listener raising
  on none of its records, counts them and stages \<open>info.start\<close> plus their number.
\<close>

lemma tail_batch_stages:
  assumes init: "readInitState cfg zk = (Inr st, zk1)"
    and complete: "isStatusComplete st"
    and resp: "logResponse env = Response info recs Complete"
    and start: "info_start info = Some s"
    and short: "length recs < pausedAt (streams env)"
    and handled: "fst (streamRecords cfg (extensions env) (recordsEmitted (streams env) recs)
                         newBatchState) = None"
  shows "nextLogOffset (batch (processLogEntries cfg env rd zk bus)) = Some (s + int (length recs))
       \<and> nbLogRecordsRead (batch (processLogEntries cfg env rd zk bus)) = length recs"
proof -
  let ?em = "recordsEmitted (streams env) recs"
  let ?lr = "\<lparr>lr_info = info, lr_log = Val (LogStream ?em End)\<rparr>"
  let ?bs1 = "newBatchState\<lparr>logRes := Some ?lr\<rparr>"
  have len: "length ?em = length recs"
    using short by (simp add: recordsEmitted_length)
  have rd: "processReadRecords cfg env newBatchState zk = (None, ?bs1, zk1, iProducer env)"
    using init complete resp short
    by (simp add: processReadRecords_def getRaftLog_def streamClosing_def)
  obtain q bs2 where sr: "streamRecords cfg (extensions env) ?em ?bs1 = (q, bs2)"
    by (cases "streamRecords cfg (extensions env) ?em ?bs1")
  have "fst (streamRecords cfg (extensions env) ?em ?bs1) = None"
    using handled streamRecords_fst [of cfg "extensions env" ?em ?bs1 newBatchState] by simp
  with sr have q: "q = None" by simp
  from sr q have cnt: "nbLogRecordsRead bs2 = length recs"
    using streamRecords_count [of cfg "extensions env" ?em ?bs1 bs2] len
    by (simp add: newBatchState_def)
  from sr have fr: "logRes bs2 = Some ?lr" "initState bs2 = None"
    using streamRecords_frame [of cfg "extensions env" ?em ?bs1 q bs2]
    by (simp_all add: newBatchState_def)
  have prep: "processPrepareEntries cfg (extensions env) ?bs1 = (None, bs2)"
    using sr q start by (simp add: processPrepareEntries_def newBatchState_def)
  have stage: "stageNextLogOffset bs2 = Inr (bs2\<lparr>nextLogOffset := Some (s + int (length recs))\<rparr>)"
    using fr cnt start by (simp add: stageNextLogOffset_def)
  obtain r bs3 bus1 where pub: "processPublishEntries cfg (sendError env) bs2 bus = (r, bs3, bus1)"
    by (cases "processPublishEntries cfg (sendError env) bs2 bus")
  from pub stage have bs3: "nextLogOffset bs3 = Some (s + int (length recs))"
    "nbLogRecordsRead bs3 = length recs"
    using cnt by (auto simp: processPublishEntries_def split: option.splits if_splits)
  show ?thesis
  proof (cases r)
    case None
    with rd prep pub bs3 show ?thesis
      by (simp add: processLogEntries_def Let_def split: prod.splits)
  next
    case (Some f)
    with rd prep pub bs3 show ?thesis
      by (simp add: processLogEntries_def Let_def)
  qed
qed

text \<open>
  A tail batch whose log is long enough to fill the unread \<open>ListRecordStream\<close> never
  gets to the publish phase: nothing is staged.
\<close>

lemma tail_batch_stalls:
  assumes init: "readInitState cfg zk = (Inr st, zk1)"
    and complete: "isStatusComplete st"
    and resp: "logResponse env = Response info recs Complete"
    and start: "info_start info = Some s"
    and long: "pausedAt (streams env) \<le> length recs"
  shows "outcome (processLogEntries cfg env rd zk bus) \<noteq> None
       \<and> nextLogOffset (batch (processLogEntries cfg env rd zk bus)) = None"
proof -
  let ?em = "recordsEmitted (streams env) recs"
  let ?lr = "\<lparr>lr_info = info, lr_log = Val (LogStream ?em Stalled)\<rparr>"
  let ?bs1 = "newBatchState\<lparr>logRes := Some ?lr\<rparr>"
  have rd: "processReadRecords cfg env newBatchState zk = (None, ?bs1, zk1, iProducer env)"
    using init complete resp long
    by (simp add: processReadRecords_def getRaftLog_def streamClosing_def)
  obtain q bs2 where sr: "streamRecords cfg (extensions env) ?em ?bs1 = (q, bs2)"
    by (cases "streamRecords cfg (extensions env) ?em ?bs1")
  from streamRecords_frame [OF sr] have nx: "nextLogOffset bs2 = None"
    by (simp add: newBatchState_def)
  have prep: "\<exists>f. processPrepareEntries cfg (extensions env) ?bs1 = (Some f, bs2)"
    using sr start by (cases q) (simp_all add: processPrepareEntries_def newBatchState_def)
  then obtain f where "processPrepareEntries cfg (extensions env) ?bs1 = (Some f, bs2)" ..
  with rd nx show ?thesis
    by (simp add: processLogEntries_def Let_def)
qed

text \<open>
  C3. A tail batch on a log of 40 records of the source bucket read from offset 7,
  with the buffering of object streams: the listener of the reader gets 31 records and
  counts them, the stream never ends, the publish phase is not reached and no
  \<open>nextLogOffset\<close> is staged; the batch stays in progress.
\<close>

theorem long_log_batch_stalls:
  "outcome (processLogEntries exampleConfig
       (tailEnv (Some 7) (replicate 40 (putRecord ''bucket1'' ''a'')))
       \<lparr>logOffset = 7, batchInProgress = False\<rparr> (exampleCoordinator ''true'') []) = Some Hung
   \<and> nbLogRecordsRead (batch (processLogEntries exampleConfig
       (tailEnv (Some 7) (replicate 40 (putRecord ''bucket1'' ''a'')))
       \<lparr>logOffset = 7, batchInProgress = False\<rparr> (exampleCoordinator ''true'') [])) = 31
   \<and> nextLogOffset (batch (processLogEntries exampleConfig
       (tailEnv (Some 7) (replicate 40 (putRecord ''bucket1'' ''a'')))
       \<lparr>logOffset = 7, batchInProgress = False\<rparr> (exampleCoordinator ''true'') [])) = None
   \<and> batchInProgress (readerAfter (processLogEntries exampleConfig
       (tailEnv (Some 7) (replicate 40 (putRecord ''bucket1'' ''a'')))
       \<lparr>logOffset = 7, batchInProgress = False\<rparr> (exampleCoordinator ''true'') [])) = True"
  by (simp add: batch_eval example_defs numeral_eq_Suc)

subsection \<open>A batch without a log\<close>

text \<open>
  When the read phase leaves a log that is \<open>undefined\<close> or \<open>null\<close>, the prepare phase
  returns at once, the handle is still empty, and the publish phase raises on
  \<open>entries.length\<close>.
\<close>

lemma absent_log_raises:
  assumes rd: "processReadRecords cfg env newBatchState zk = (None, bs1, zk1, pr1)"
    and lr: "logRes bs1 = Some lr"
    and absent: "lr_log lr = Undefined \<or> lr_log lr = Null"
  shows "outcome (processLogEntries cfg env rd zk bus) = Some Thrown"
proof -
  have h: "entriesToPublish bs1 = Map.empty"
    using processReadRecords_handle [OF rd] by (simp add: newBatchState_def)
  have prep: "processPrepareEntries cfg (extensions env) bs1 = (None, bs1)"
    using lr absent by (auto simp: processPrepareEntries_def)
  have "\<exists>bs2. stageNextLogOffset bs1 = Inr bs2"
    using lr by (auto simp: stageNextLogOffset_def Let_def split: option.splits)
  then obtain bs2 where st: "stageNextLogOffset bs1 = Inr bs2" ..
  from stageNextLogOffset_frame [OF st] h have "entriesToPublish bs2 (targetZenkoBucket cfg) = None"
    by simp
  with st have pub: "processPublishEntries cfg (sendError env) bs1 bus = (Some Thrown, bs2, bus)"
    by (simp add: processPublishEntries_def)
  from rd prep pub show ?thesis by (simp add: processLogEntries_def Let_def)
qed

text \<open>
  C4. A tail batch whose log read is answered with 416 or 404 does not complete: it
  raises in the publish phase, and \<open>_batchInProgress\<close> stays set.
\<close>

theorem range_not_satisfiable_batch_raises:
  "outcome (processLogEntries exampleConfig (errorEnv 416)
        \<lparr>logOffset = 7, batchInProgress = False\<rparr> (exampleCoordinator ''true'') []) = Some Thrown
   \<and> batchInProgress (readerAfter (processLogEntries exampleConfig (errorEnv 416)
        \<lparr>logOffset = 7, batchInProgress = False\<rparr> (exampleCoordinator ''true'') [])) = True
   \<and> outcome (processLogEntries exampleConfig (errorEnv 404)
        \<lparr>logOffset = 7, batchInProgress = False\<rparr> (exampleCoordinator ''true'') []) = Some Thrown"
  by (simp add: batch_eval example_defs)

subsection \<open>The rewrite of keys and buckets\<close>

text \<open>The model of \<open>split\<close>: the key is cut at the first separator, if there is one.\<close>

lemma has_sep_decompose:
  "has_sep sep s \<Longrightarrow> \<exists>rest. s = before_sep sep s @ sep @ rest"
proof (induction s)
  case Nil
  then show ?case by simp
next
  case (Cons c cs)
  show ?case
  proof (cases "prefix sep (c # cs)")
    case True
    then show ?thesis by (auto simp: prefix_def)
  next
    case False
    with Cons show ?thesis by auto
  qed
qed

lemma before_sep_whole: "\<not> has_sep sep s \<Longrightarrow> before_sep sep s = s"
  by (induction s) (auto split: if_splits)

lemma before_sep_prefix: "prefix (before_sep sep s) s"
  by (induction s) auto

lemma before_sep_no_sep: "\<not> has_sep sep (before_sep sep s)"
proof (induction s)
  case Nil
  show ?case by simp
next
  case (Cons c cs)
  show ?case
  proof (cases "prefix sep (c # cs)")
    case True
    then show ?thesis by simp
  next
    case False
    have "prefix (c # before_sep sep cs) (c # cs)"
      using before_sep_prefix [of sep cs] by simp
    then have "\<not> prefix sep (c # before_sep sep cs)"
      using False by (meson prefix_order.trans)
    with False Cons show ?thesis by simp
  qed
qed

text \<open>
  C5, as amended. For an entry with a key, handled under a non-empty \<open>record.db\<close>:
  under \<open>users..bucket\<close> the key becomes its part before the first \<open>..|..\<close>, then
  \<open>..|..\<close>, then the target bucket, and under \<open>metastore\<close> its part before the first
  \<open>/\<close>, then \<open>/\<close>, then the target bucket, the bucket staying \<open>record.db\<close>; under any
  other \<open>db\<close> the bucket becomes the target bucket and the key is passed through, except
  that a key equal to \<open>record.db\<close> becomes the target bucket. In the tail phase a record
  whose \<open>db\<close> is not the source bucket reaches no extension: the handle is unchanged.
\<close>

theorem processLogEntry_rewrite:
  assumes key: "e_key entry = Some k"
    and db: "d \<noteq> []"
  shows "processLogEntry cfg (Some d) entry =
           Inr (Some \<lparr>f_type = e_type entry,
                      f_bucket = Some (if d = ''users..bucket'' \<or> d = ''metastore'' then d
                                       else targetZenkoBucket cfg),
                      f_key = Some (if d = ''users..bucket''
                                      then before_sep ''..|..'' k @ ''..|..'' @ targetZenkoBucket cfg
                                    else if d = ''metastore''
                                      then before_sep ''/'' k @ ''/'' @ targetZenkoBucket cfg
                                    else if d = k then targetZenkoBucket cfg
                                    else k),
                      f_value = e_value entry\<rparr>)
       \<and> (rdb \<noteq> Some (bucket cfg) \<longrightarrow>
            entriesToPublish (snd (recordEntries cfg exts rdb es bs)) = entriesToPublish bs)"
proof
  show "processLogEntry cfg (Some d) entry =
           Inr (Some \<lparr>f_type = e_type entry,
                      f_bucket = Some (if d = ''users..bucket'' \<or> d = ''metastore'' then d
                                       else targetZenkoBucket cfg),
                      f_key = Some (if d = ''users..bucket''
                                      then before_sep ''..|..'' k @ ''..|..'' @ targetZenkoBucket cfg
                                    else if d = ''metastore''
                                      then before_sep ''/'' k @ ''/'' @ targetZenkoBucket cfg
                                    else if d = k then targetZenkoBucket cfg
                                    else k),
                      f_value = e_value entry\<rparr>)"
    using key db by (simp add: processLogEntry_def)
next
  have "rdb \<noteq> Some (bucket cfg) \<Longrightarrow>
      entriesToPublish (snd (recordEntries cfg exts rdb es bs)) = entriesToPublish bs" for bs
    by (induction es arbitrary: bs) (simp_all add: Let_def)
  then show "rdb \<noteq> Some (bucket cfg) \<longrightarrow>
            entriesToPublish (snd (recordEntries cfg exts rdb es bs)) = entriesToPublish bs"
    by simp
qed

text \<open>A \<open>users..bucket\<close> entry, and a tail record of that container under source bucket \<open>bucket1\<close>.\<close>

theorem processLogEntry_rewrite_witness:
  "processLogEntry exampleConfig (Some ''users..bucket'')
     \<lparr>e_type = Some ''put'', e_bucket = None, e_key = Some ''owner..|..bucket1'',
      e_value = Some ''2019'', e_db = None\<rparr>
   = Inr (Some \<lparr>f_type = Some ''put'', f_bucket = Some ''users..bucket'',
                f_key = Some ''owner..|..zenkobucket'', f_value = Some ''2019''\<rparr>)
   \<and> entriesToPublish (snd (recordEntries exampleConfig [exampleExtension] (Some ''users..bucket'')
         [\<lparr>e_type = Some ''put'', e_bucket = None, e_key = Some ''owner..|..bucket1'',
           e_value = Some ''2019'', e_db = None\<rparr>] newBatchState))
     = entriesToPublish newBatchState"
  using processLogEntry_rewrite [of "\<lparr>e_type = Some ''put'', e_bucket = None,
      e_key = Some ''owner..|..bucket1'', e_value = Some ''2019'', e_db = None\<rparr>"
      "''owner..|..bucket1''" "''users..bucket''" exampleConfig "Some ''users..bucket''"
      "[exampleExtension]"
      "[\<lparr>e_type = Some ''put'', e_bucket = None, e_key = Some ''owner..|..bucket1'',
           e_value = Some ''2019'', e_db = None\<rparr>]" newBatchState]
  by (simp add: exampleConfig_def)

text \<open>
  A tail record of the source bucket whose entry key is the bucket's own name: the key
  is not passed through, the event carries the target bucket as its key.
\<close>

theorem key_passthrough_counterexample:
  "processLogEntry exampleConfig (Some ''bucket1'')
     \<lparr>e_type = Some ''put'', e_bucket = None, e_key = Some ''bucket1'', e_value = Some ''{}'',
      e_db = None\<rparr>
   = Inr (Some \<lparr>f_type = Some ''put'', f_bucket = Some ''zenkobucket'',
                f_key = Some ''zenkobucket'', f_value = Some ''{}''\<rparr>)
   \<and> entriesToPublish (batch (processLogEntries exampleConfig
        (tailEnv (Some 7) [putRecord ''bucket1'' ''bucket1''])
        \<lparr>logOffset = 7, batchInProgress = False\<rparr> (exampleCoordinator ''true'') []))
        ''zenkobucket''
     = Some [(''zenkobucket/zenkobucket'', ''{}'')]"
  by (simp add: batch_eval example_defs)

section \<open>Properties of the progress store\<close>

text \<open>
  C10. After a successful \<open>_writeInitState\<close> each of the three nodes holds a text: the
  marker itself, or \<open>null\<close> when the marker is absent or empty, and \<open>true\<close> or \<open>null\<close>
  for \<open>isStatusComplete\<close>. A \<open>_readInitState\<close> that follows returns those texts for the
  markers, so an absent marker comes back as the text \<open>null\<close>, not as an absent value,
  and returns \<open>isStatusComplete\<close> as whether the stored text is \<open>true\<close>.
\<close>

theorem init_state_roundtrip:
  assumes w: "writeInitState cfg (Some st) zk = (None, zk1)"
    and r: "readInitState cfg zk1 = (Inr st', zk2)"
  shows "nodes zk1 (initPath cfg ''isStatusComplete'')
           = Some (Some (if isStatusComplete st then ''true'' else ''null''))
       \<and> nodes zk1 (initPath cfg ''versionMarker'')
           = Some (Some (case versionMarker st of None \<Rightarrow> ''null''
                         | Some v \<Rightarrow> if v = [] then ''null'' else v))
       \<and> nodes zk1 (initPath cfg ''keyMarker'')
           = Some (Some (case keyMarker st of None \<Rightarrow> ''null''
                         | Some v \<Rightarrow> if v = [] then ''null'' else v))
       \<and> versionMarker st' = Some (case versionMarker st of None \<Rightarrow> ''null''
                                    | Some v \<Rightarrow> if v = [] then ''null'' else v)
       \<and> keyMarker st' = Some (case keyMarker st of None \<Rightarrow> ''null''
                                | Some v \<Rightarrow> if v = [] then ''null'' else v)
       \<and> isStatusComplete st'
           = (nodes zk1 (initPath cfg ''isStatusComplete'') = Some (Some ''true''))"
proof -
  let ?p1 = "initPath cfg ''isStatusComplete''"
  let ?p2 = "initPath cfg ''versionMarker''"
  let ?p3 = "initPath cfg ''keyMarker''"
  let ?v1 = "initField st ''isStatusComplete''"
  let ?v2 = "initField st ''versionMarker''"
  let ?v3 = "initField st ''keyMarker''"
  have distinct: "?p1 \<noteq> ?p2" "?p1 \<noteq> ?p3" "?p2 \<noteq> ?p3"
    by (simp_all add: initPath_def)
  obtain e1 za where s1: "zk_setData zk ?p1 ?v1 = (e1, za)" by (cases "zk_setData zk ?p1 ?v1")
  obtain e2 zb where s2: "zk_setData za ?p2 ?v2 = (e2, zb)" by (cases "zk_setData za ?p2 ?v2")
  obtain e3 zc where s3: "zk_setData zb ?p3 ?v3 = (e3, zc)" by (cases "zk_setData zb ?p3 ?v3")
  from w s1 s2 s3 have ok: "e1 = None" "e2 = None" "e3 = None" "zk1 = zc"
    by (cases e1; cases e2; cases e3; simp add: writeInitState_def getInitIngestionNodes_def)+
  from s1 ok have na: "nodes za = (nodes zk)(?p1 \<mapsto> Some ?v1)" "failing za = failing zk"
    by (auto simp: zk_setData_def split: if_splits option.splits)
  from s2 ok have nb: "nodes zb = (nodes za)(?p2 \<mapsto> Some ?v2)" "failing zb = failing za"
    by (auto simp: zk_setData_def split: if_splits option.splits)
  from s3 ok have nc: "nodes zc = (nodes zb)(?p3 \<mapsto> Some ?v3)" "failing zc = failing zb"
    by (auto simp: zk_setData_def split: if_splits option.splits)
  have n1: "nodes zk1 ?p1 = Some (Some ?v1)" "nodes zk1 ?p2 = Some (Some ?v2)"
    "nodes zk1 ?p3 = Some (Some ?v3)"
    using na nb nc ok distinct by simp_all
  have rn: "readNode zk1 p = (if failing zk1 GetData p then ReadFailed (ZkFailure GetData p)
                              else Fetched (Some v))" if "nodes zk1 p = Some (Some v)" for p v
    using that by (simp add: readNode_def zk_getData_def)
  have nf: "\<not> failing zk1 GetData ?p1 \<and> \<not> failing zk1 GetData ?p2 \<and> \<not> failing zk1 GetData ?p3"
  proof (rule ccontr)
    assume "\<not> ?thesis"
    then have "readErrors (readNode zk1 ?p1) @ readErrors (readNode zk1 ?p2)
               @ readErrors (readNode zk1 ?p3) \<noteq> []"
      using rn [OF n1(1)] rn [OF n1(2)] rn [OF n1(3)] by (auto simp: readErrors_def)
    then have "\<exists>e z. readInitState cfg zk1 = (Inl e, z)"
      by (auto simp: readInitState_def Let_def split: prod.splits list.splits)
    with r show False by auto
  qed
  have f: "readNode zk1 ?p1 = Fetched (Some ?v1)" "readNode zk1 ?p2 = Fetched (Some ?v2)"
    "readNode zk1 ?p3 = Fetched (Some ?v3)"
    using rn [OF n1(1)] rn [OF n1(2)] rn [OF n1(3)] nf by simp_all
  from r f have st': "st' = \<lparr>isStatusComplete = (?v1 = ''true''), versionMarker = Some ?v2,
                            keyMarker = Some ?v3, cseq = None\<rparr>"
    by (simp add: readInitState_def Let_def readErrors_def nodeData_def)
  show ?thesis
    using n1 st' by (simp add: initField_def)
qed

text \<open>Writing the init state of a snapshot that has not started, and reading it back.\<close>

theorem init_state_roundtrip_witness:
  "fst (readInitState exampleConfig
          (snd (writeInitState exampleConfig (Some notStarted) (exampleCoordinator ''true''))))
     = Inr \<lparr>isStatusComplete = False, versionMarker = Some ''null'', keyMarker = Some ''null'',
           cseq = None\<rparr>"
proof -
  let ?zk1 = "snd (writeInitState exampleConfig (Some notStarted) (exampleCoordinator ''true''))"
  have h1: "writeInitState exampleConfig (Some notStarted) (exampleCoordinator ''true'') = (None, ?zk1)"
    by (simp add: batch_eval example_defs notStarted_def)
  obtain x z where rr: "readInitState exampleConfig ?zk1 = (x, z)"
    by (cases "readInitState exampleConfig ?zk1")
  have "\<exists>s. x = Inr s"
    using rr by (auto simp add: batch_eval example_defs notStarted_def)
  then obtain s where s: "x = Inr s" ..
  from init_state_roundtrip [OF h1 rr [unfolded s]]
  have "versionMarker s = Some ''null''" "keyMarker s = Some ''null''" "isStatusComplete s = False"
    by (simp_all add: notStarted_def initPath_def)
  moreover have "cseq s = None"
    using rr s by (auto simp: readInitState_def Let_def split: prod.splits list.splits)
  ultimately have "s = \<lparr>isStatusComplete = False, versionMarker = Some ''null'',
                         keyMarker = Some ''null'', cseq = None\<rparr>"
    by (cases s) simp
  with rr s show ?thesis by simp
qed

section \<open>Properties of the producer\<close>

text \<open>Each run appends one put entry per listed object to the entries of the runs before.\<close>

lemma snapshot_accumulates:
  assumes "objectList src b = Inr ks" "b \<noteq> usersBucket" "b \<noteq> metastoreBucket"
  shows "snapshot src t b pr =
           (pr\<lparr>resLog := resLog pr @ map (\<lambda>k. createPutEntry (objectMetadata src b k, k, b) t) ks\<rparr>,
            None,
            resLog pr @ map (\<lambda>k. createPutEntry (objectMetadata src b k, k, b) t) ks)"
  using assms by (simp add: snapshot_def bucketObjects_def createAndPushEntry_def comp_def Let_def)

text \<open>
  C6. Two snapshots by the same producer of a bucket that holds one object: the first
  callback gets one put entry, the second gets two, so the two are not equal as
  multisets.
\<close>

theorem second_snapshot_repeats_entries:
  "snd (snd (snapshot exampleSource ''zenkobucket'' ''bucket1'' newProducer))
     = [createPutEntry (Some ''{}'', ''object1'', ''bucket1'') ''zenkobucket'']
   \<and> snd (snd (snapshot exampleSource ''zenkobucket'' ''bucket1''
                  (fst (snapshot exampleSource ''zenkobucket'' ''bucket1'' newProducer))))
     = [createPutEntry (Some ''{}'', ''object1'', ''bucket1'') ''zenkobucket'',
        createPutEntry (Some ''{}'', ''object1'', ''bucket1'') ''zenkobucket'']
   \<and> mset (snd (snd (snapshot exampleSource ''zenkobucket'' ''bucket1''
                  (fst (snapshot exampleSource ''zenkobucket'' ''bucket1'' newProducer)))))
     \<noteq> mset (snd (snd (snapshot exampleSource ''zenkobucket'' ''bucket1'' newProducer)))"
proof -
  have l: "objectList exampleSource ''bucket1'' = Inr [''object1'']"
    and m: "objectMetadata exampleSource ''bucket1'' ''object1'' = Some ''{}''"
    and u: "''bucket1'' \<noteq> usersBucket" "''bucket1'' \<noteq> metastoreBucket"
    by (simp_all add: exampleSource_def usersBucket_def metastoreBucket_def)
  show ?thesis
    by (simp add: snapshot_accumulates [OF l u] m newProducer_def)
qed

text \<open>
  An error on the read stream before the header: with status code 404 or 416
  \<open>getRaftLog\<close> calls back without an error and with
  \<open>{ info: { start: null, end: null } }\<close>, so before any record; with any other it
  calls back with \<open>InternalError\<close>.
\<close>

lemma getRaftLog_before_header:
  "getRaftLog ns (TransportError sc) =
     (if sc = Some 404 \<or> sc = Some 416
      then Inr \<lparr>lr_info = \<lparr>info_start = None, info_end = None\<rparr>, lr_log = Undefined\<rparr>
      else Inl InternalError)"
  by (simp add: getRaftLog_def)

text \<open>
  C7. A log read whose response breaks off after the header and one record (the
  connection is reset): \<open>getRaftLog\<close> has already called back without an error, the
  error is raised where it is emitted, and it is not reported as a failure, neither
  by \<open>getRaftLog\<close> nor by the batch, which does not complete and stays in progress.
\<close>

theorem error_after_header_raises:
  "getRaftLog exampleStreams
     (Response \<lparr>info_start = Some 7, info_end = None\<rparr> [putRecord ''bucket1'' ''a'']
        (Broken (External ''ECONNRESET'')))
     = Inr \<lparr>lr_info = \<lparr>info_start = Some 7, info_end = None\<rparr>,
            lr_log = Val (LogStream [putRecord ''bucket1'' ''a''] Raised)\<rparr>
   \<and> outcome (processLogEntries exampleConfig
       (answerEnv (Response \<lparr>info_start = Some 7, info_end = None\<rparr>
                     [putRecord ''bucket1'' ''a''] (Broken (External ''ECONNRESET''))))
       \<lparr>logOffset = 7, batchInProgress = False\<rparr> (exampleCoordinator ''true'') []) = Some Thrown
   \<and> batchInProgress (readerAfter (processLogEntries exampleConfig
       (answerEnv (Response \<lparr>info_start = Some 7, info_end = None\<rparr>
                     [putRecord ''bucket1'' ''a''] (Broken (External ''ECONNRESET''))))
       \<lparr>logOffset = 7, batchInProgress = False\<rparr> (exampleCoordinator ''true'') [])) = True"
  by (simp add: batch_eval example_defs)

section \<open>Properties of the backlog metrics\<close>

text \<open>
  C8, as amended. For every partition \<open>publishConsumerBacklog\<close> handles, once the high
  watermark is known the two requests are issued back to back: the consumer group's
  offset first, the topic's offset second, the second also when the first is refused.
\<close>

theorem backlog_requests_order:
  assumes "highOffset consumer topic part = Inr topicOffset"
  shows "snd (publishPartition zkPath refused consumer topic groupId part off) =
           [\<lparr>rq_path = getOffsetZkPath zkPath topic (showNat part) ''consumers'' groupId,
             rq_data = showInt off\<rparr>,
            \<lparr>rq_path = getOffsetZkPath zkPath topic (showNat part) ''topic'' None,
             rq_data = showInt topicOffset\<rparr>]"
  using assms
  by (simp add: publishPartition_def getLatestTopicOffset_def publishOffset_def Let_def
      split: prod.splits)

text \<open>Group G at offset 90 of partition 0 of topic T, high watermark 100.\<close>

theorem backlog_requests_order_witness:
  "snd (publishPartition ''/backlog'' (\<lambda>p. False) exampleConsumer ''T'' (Some ''G'') 0 90) =
     [\<lparr>rq_path = ''/backlog/T/0/consumers/G'', rq_data = ''90''\<rparr>,
      \<lparr>rq_path = ''/backlog/T/0/topic'', rq_data = ''100''\<rparr>]"
proof -
  have h: "highOffset exampleConsumer ''T'' 0 = Inr 100" by (simp add: exampleConsumer_def)
  show ?thesis
    using backlog_requests_order [OF h, of "''/backlog''" "\<lambda>p. False" "Some ''G''" 90]
    by (simp add: getOffsetZkPath_def getPartitionsOffsetsZkPath_def showInt_def Let_def)
qed

text \<open>
  The same consumer through \<open>publishConsumerBacklog\<close>: its one partition issues the
  consumer offset as the first request and the topic offset as the second.
\<close>

theorem consumer_written_first_counterexample:
  "backlogIteratees ''/backlog'' (\<lambda>p. False) exampleConsumer ''T'' (Some ''G'') =
     [(0, None, [\<lparr>rq_path = ''/backlog/T/0/consumers/G'', rq_data = ''90''\<rparr>,
                 \<lparr>rq_path = ''/backlog/T/0/topic'', rq_data = ''100''\<rparr>])]"
  by (simp add: backlogIteratees_def exampleConsumer_def publishPartition_def
      getLatestTopicOffset_def publishOffset_def getOffsetZkPath_def
      getPartitionsOffsetsZkPath_def showInt_def Let_def)

text \<open>The third step of the waterfall finds the first consumer offset whose lag is too high.\<close>

lemma firstLagging_filter:
  "firstLagging topic p maxLag sn target cs =
     (case filter (\<lambda>i. ci_lag i > maxLag) (map (lagInfo topic p maxLag sn target) cs) of
        [] \<Rightarrow> None | i # rest \<Rightarrow> Some i)"
  by (induction cs) (simp_all add: lagInfo_def)

lemma eachPartition_readable:
  assumes "\<forall>p\<in>set ps. consumerOffsets zkPath zk topic groupId p = Inr (cs p) \<and>
                      targetOffset zkPath zk topic None p = Inr (t p)"
  shows "eachPartition zkPath zk topic groupId maxLag None ps =
           (case laggingInfos topic maxLag cs t ps of
              [] \<Rightarrow> None | i # rest \<Rightarrow> Some (CheckConditionError i))"
  using assms
proof (induction ps)
  case Nil
  show ?case by (simp add: laggingInfos_def)
next
  case (Cons p ps)
  then have c: "consumerOffsets zkPath zk topic groupId p = Inr (cs p)"
    and t: "targetOffset zkPath zk topic None p = Inr (t p)"
    and IH: "eachPartition zkPath zk topic groupId maxLag None ps =
           (case laggingInfos topic maxLag cs t ps of
              [] \<Rightarrow> None | i # rest \<Rightarrow> Some (CheckConditionError i))"
    by simp_all
  show ?case
  proof (cases "filter (\<lambda>i. ci_lag i > maxLag) (map (lagInfo topic p maxLag None (t p)) (cs p))")
    case Nil
    with c t IH show ?thesis
      by (simp add: checkPartition_def firstLagging_filter laggingInfos_def)
  next
    case (Cons i rest)
    with c t show ?thesis
      by (simp add: checkPartition_def firstLagging_filter laggingInfos_def)
  qed
qed

text \<open>
  When the list of partitions and, for every partition, the consumer offsets (of the
  group, or of all published groups) and the topic offset can be read,
  \<open>checkConsumerLag\<close> returns the info of the first consumer offset, in the order of
  the partitions and of the groups within one, whose lag (topic offset minus consumer
  offset, at least zero) exceeds \<open>maxLag\<close>, and success when there is none; so it
  returns success exactly when every such lag is at most \<open>maxLag\<close>.
\<close>

lemma checkConsumerLag_readable:
  assumes parts: "oz_getChildren zk (getPartitionsOffsetsZkPath zkPath topic) = Inr ps"
    and reads: "\<forall>p\<in>set ps. consumerOffsets zkPath zk topic groupId p = Inr (cs p) \<and>
                             targetOffset zkPath zk topic None p = Inr (t p)"
  shows "checkConsumerLag zkPath zk topic groupId maxLag =
           (case laggingInfos topic maxLag cs t ps of
              [] \<Rightarrow> CheckOk | i # rest \<Rightarrow> Lagging i)
       \<and> (checkConsumerLag zkPath zk topic groupId maxLag = CheckOk) =
           (\<forall>p\<in>set ps. \<forall>c\<in>set (cs p). lagOf (t p) (snd c) \<le> maxLag)"
proof -
  have r: "checkConsumerLag zkPath zk topic groupId maxLag =
           (case laggingInfos topic maxLag cs t ps of
              [] \<Rightarrow> CheckOk | i # rest \<Rightarrow> Lagging i)"
    using parts eachPartition_readable [OF reads, of maxLag]
    by (simp add: checkConsumerLag_def checkConsumerOffsetsGeneric_def split: list.splits)
  have e: "(laggingInfos topic maxLag cs t ps = []) =
           (\<forall>p\<in>set ps. \<forall>c\<in>set (cs p). lagOf (t p) (snd c) \<le> maxLag)"
    by (auto simp: laggingInfos_def filter_empty_conv lagInfo_def not_less)
  from r e show ?thesis by (auto split: list.splits)
qed

lemmas check_eval =
  checkConsumerLag_def checkConsumerOffsetsGeneric_def checkPartition_def consumerOffsets_def
  targetOffset_def readOffset_def readAllOffsets_def truthy_def isNoNode_def lagOf_def
  lagInfo_def getOffsetZkPath_def getPartitionsOffsetsZkPath_def Let_def

text \<open>Watermarks 100 and 200, group G at 90 and 195, \<open>maxLag = 5\<close>: partition 0 is reported.\<close>

lemma checkConsumerLag_example:
  "checkConsumerLag ''/backlog'' exampleOffsets ''T'' (Some ''G'') 5 =
     Lagging \<lparr>ci_topic = ''T'', ci_partition = ''0'', ci_groupId = Some ''G'',
              ci_consumerOffset = 90, ci_lag = 10, ci_maxLag = 5, ci_snapshotName = None,
              ci_snapshotOffset = None, ci_topicOffset = Some 100\<rparr>
   \<and> checkConsumerLag ''/backlog'' exampleOffsets ''T'' (Some ''G'') 5 \<noteq> CheckOk"
proof -
  let ?cs = "\<lambda>p. [(Some ''G'', if p = ''0'' then 90 else 195 :: int)]"
  let ?t = "\<lambda>p. if p = ''0'' then 100 else 200 :: int"
  have parts: "oz_getChildren exampleOffsets (getPartitionsOffsetsZkPath ''/backlog'' ''T'')
                 = Inr [''0'', ''1'']"
    by (simp add: exampleOffsets_def getPartitionsOffsetsZkPath_def)
  have reads: "\<forall>p\<in>set [''0'', ''1''].
      consumerOffsets ''/backlog'' exampleOffsets ''T'' (Some ''G'') p = Inr (?cs p) \<and>
      targetOffset ''/backlog'' exampleOffsets ''T'' None p = Inr (?t p)"
    by (simp add: check_eval exampleOffsets_def)
  show ?thesis
    using checkConsumerLag_readable [OF parts reads, of 5]
    by (simp add: laggingInfos_def lagInfo_def lagOf_def truthy_def)
qed

text \<open>
  C9. Group G has no offset node for partition 0 and lags by 200 on partition 1, with
  \<open>maxLag = 5\<close>: the check of group G ends at partition 0 and reports success. The
  check of all groups, on the same nodes, passes partition 0 and reports partition 1.
\<close>

theorem missing_consumer_node_reports_success:
  "checkConsumerLag ''/backlog'' partialOffsets ''T'' (Some ''G'') 5 = CheckOk
   \<and> readOffset ''/backlog'' partialOffsets ''T'' ''1'' ''topic'' None = Inr 200
   \<and> readOffset ''/backlog'' partialOffsets ''T'' ''1'' ''consumers'' (Some ''G'') = Inr 0
   \<and> lagOf 200 0 > 5
   \<and> checkConsumerLag ''/backlog'' partialOffsets ''T'' None 5 =
       Lagging \<lparr>ci_topic = ''T'', ci_partition = ''1'', ci_groupId = Some ''G'',
                ci_consumerOffset = 0, ci_lag = 200, ci_maxLag = 5, ci_snapshotName = None,
                ci_snapshotOffset = None, ci_topicOffset = Some 200\<rparr>"
  by (simp add: check_eval partialOffsets_def)

end
